theory Spec2Isabelle
  imports Main "HOL-Library.Log_Nat"
begin

section \<open>JavaScript numbers\<close>

text \<open>
  \<^verbatim>\<open>App.tsx\<close> computes with JavaScript numbers, that is IEEE 754 binary64 values.
  A finite nonzero double is carried as the rational it denotes (\<open>Fin q\<close>, and \<open>Fin 0\<close>
  is \<open>+0\<close>); \<open>-0\<close>, the two infinities and \<open>NaN\<close> are constructors of their own.
  Every arithmetic operation computes the exact rational result and rounds it to the
  nearest double, ties to even (\<open>round_double\<close>).
\<close>

datatype jsnum = Fin rat | NegZero | PosInf | NegInf | NaN

definition pow2 :: "int \<Rightarrow> rat" where
  "pow2 e = (if 0 \<le> e then 2 ^ nat e else 1 / 2 ^ nat (- e))"

text \<open>The largest \<open>e\<close> with \<open>2 ^ e \<le> a\<close>, for a positive rational \<open>a\<close>.\<close>

definition floor_log2 :: "rat \<Rightarrow> int" where
  "floor_log2 a =
     (if 1 \<le> a then bitlen \<lfloor>a\<rfloor> - 1 else - bitlen (\<lceil>1 / a\<rceil> - 1))"

definition round_half_even :: "rat \<Rightarrow> int" where
  "round_half_even r =
     (let f = \<lfloor>r\<rfloor>; d = r - of_int f
      in if d < 1 / 2 then f
         else if 1 / 2 < d then f + 1
         else if even f then f else f + 1)"

text \<open>
  Rounding of an exact result to binary64: 53 significant bits, the least exponent
  \<open>-1022\<close> (below it the spacing stays \<open>2 ^ -1074\<close>: subnormal numbers), overflow to
  an infinity from \<open>2 ^ 1024\<close> on, and a result that rounds to nothing keeps its sign.
\<close>

definition round_double :: "rat \<Rightarrow> jsnum" where
  "round_double q =
     (if q = 0 then Fin 0
      else let a = \<bar>q\<bar>;
               e = max (floor_log2 a) (- 1022);
               u = pow2 (e - 52);
               m = round_half_even (a / u);
               r = of_int m * u
           in if pow2 1024 \<le> r then (if q < 0 then NegInf else PosInf)
              else if m = 0 then (if q < 0 then NegZero else Fin 0)
              else Fin (if q < 0 then - r else r))"

fun is_nan :: "jsnum \<Rightarrow> bool" where
  "is_nan NaN = True"
| "is_nan _ = False"

fun is_inf :: "jsnum \<Rightarrow> bool" where
  "is_inf PosInf = True"
| "is_inf NegInf = True"
| "is_inf _ = False"

text \<open>\<^verbatim>\<open>Number.isFinite\<close> on a number.\<close>

fun isFinite :: "jsnum \<Rightarrow> bool" where
  "isFinite (Fin q) = True"
| "isFinite NegZero = True"
| "isFinite _ = False"

text \<open>The sign bit, and the value of a finite number.\<close>

fun negative :: "jsnum \<Rightarrow> bool" where
  "negative (Fin q) = (q < 0)"
| "negative NegZero = True"
| "negative NegInf = True"
| "negative _ = False"

fun val :: "jsnum \<Rightarrow> rat" where
  "val (Fin q) = q"
| "val _ = 0"

definition signed_zero :: "bool \<Rightarrow> jsnum" where
  "signed_zero s = (if s then NegZero else Fin 0)"

definition signed_inf :: "bool \<Rightarrow> jsnum" where
  "signed_inf s = (if s then NegInf else PosInf)"

text \<open>
  \<^verbatim>\<open>x - y\<close>: \<open>NaN\<close> is contagious and so is the difference of equal infinities;
  an exact zero is \<open>+0\<close> unless it is \<open>(-0) - (+0)\<close>.
\<close>

definition js_sub :: "jsnum \<Rightarrow> jsnum \<Rightarrow> jsnum" where
  "js_sub x y =
     (if is_nan x \<or> is_nan y then NaN
      else if is_inf x then (if x = y then NaN else x)
      else if is_inf y then signed_inf (\<not> negative y)
      else if val x - val y = 0 then signed_zero (x = NegZero \<and> y = Fin 0)
      else round_double (val x - val y))"

text \<open>
  \<^verbatim>\<open>x / y\<close>: the sign is the exclusive or of the signs; \<open>\<infinity> / \<infinity>\<close> and \<open>0 / 0\<close>
  are \<open>NaN\<close>, a nonzero number over a zero is an infinity.
\<close>

definition js_div :: "jsnum \<Rightarrow> jsnum \<Rightarrow> jsnum" where
  "js_div x y =
     (let s = (negative x \<noteq> negative y)
      in if is_nan x \<or> is_nan y then NaN
         else if is_inf x then (if is_inf y then NaN else signed_inf s)
         else if is_inf y then signed_zero s
         else if val y = 0 then (if val x = 0 then NaN else signed_inf s)
         else if val x = 0 then signed_zero s
         else round_double (val x / val y))"

text \<open>\<^verbatim>\<open>x * y\<close>: \<open>\<infinity> * 0\<close> is \<open>NaN\<close>; a zero product keeps the sign.\<close>

definition js_mul :: "jsnum \<Rightarrow> jsnum \<Rightarrow> jsnum" where
  "js_mul x y =
     (let s = (negative x \<noteq> negative y)
      in if is_nan x \<or> is_nan y then NaN
         else if is_inf x \<or> is_inf y then
           (if (\<not> is_inf x \<and> val x = 0) \<or> (\<not> is_inf y \<and> val y = 0) then NaN
            else signed_inf s)
         else if val x * val y = 0 then signed_zero s
         else round_double (val x * val y))"

text \<open>Truthiness of a number: \<open>+0\<close>, \<open>-0\<close> and \<open>NaN\<close> are falsy.\<close>

fun truthy :: "jsnum \<Rightarrow> bool" where
  "truthy (Fin q) = (q \<noteq> 0)"
| "truthy NegZero = False"
| "truthy NaN = False"
| "truthy _ = True"

text \<open>Unary minus, for a signed numeric string.\<close>

fun js_neg :: "jsnum \<Rightarrow> jsnum" where
  "js_neg (Fin q) = (if q = 0 then NegZero else Fin (- q))"
| "js_neg NegZero = Fin 0"
| "js_neg PosInf = NegInf"
| "js_neg NegInf = PosInf"
| "js_neg NaN = NaN"

section \<open>Strings and their conversion to numbers\<close>

text \<open>
  A JavaScript string is modelled as a \<open>string\<close> whose characters are the code units
  below 256. The white space that \<^verbatim>\<open>trim\<close> and \<^verbatim>\<open>Number\<close> strip is, in that range: tab,
  line feed, vertical tab, form feed, carriage return, space and no-break space.
\<close>

definition is_ws :: "char \<Rightarrow> bool" where
  "is_ws c = (of_char c \<in> {9, 10, 11, 12, 13, 32, 160 :: nat})"

definition trim :: "string \<Rightarrow> string" where
  "trim s = rev (dropWhile is_ws (rev (dropWhile is_ws s)))"

text \<open>The value of a digit in a base up to 16; \<open>None\<close> when the character is no digit of it.\<close>

definition digit_val :: "nat \<Rightarrow> char \<Rightarrow> nat option" where
  "digit_val base c =
     (let n = (of_char c :: nat);
          v = (if 48 \<le> n \<and> n \<le> 57 then Some (n - 48)
               else if 97 \<le> n \<and> n \<le> 102 then Some (n - 87)
               else if 65 \<le> n \<and> n \<le> 70 then Some (n - 55)
               else None)
      in case v of None \<Rightarrow> None | Some d \<Rightarrow> if d < base then Some d else None)"

definition is_digit :: "char \<Rightarrow> bool" where
  "is_digit c = (digit_val 10 c \<noteq> None)"

text \<open>A run of digits read as a number in the base, and the same for a non-empty run only.\<close>

definition digits_value :: "nat \<Rightarrow> string \<Rightarrow> nat" where
  "digits_value base s =
     foldl (\<lambda>acc c. acc * base + (case digit_val base c of None \<Rightarrow> 0 | Some d \<Rightarrow> d)) 0 s"

definition parse_digits :: "nat \<Rightarrow> string \<Rightarrow> nat option" where
  "parse_digits base s =
     (if s \<noteq> [] \<and> list_all (\<lambda>c. digit_val base c \<noteq> None) s
      then Some (digits_value base s)
      else None)"

definition pow10 :: "int \<Rightarrow> rat" where
  "pow10 e = (if 0 \<le> e then 10 ^ nat e else 1 / 10 ^ nat (- e))"

text \<open>The exponent part of a decimal literal: nothing, or \<open>e\<close>/\<open>E\<close> and a signed integer.\<close>

definition parse_exponent :: "string \<Rightarrow> int option" where
  "parse_exponent s =
     (case s of
        [] \<Rightarrow> Some 0
      | c # t \<Rightarrow>
          if c = CHR ''e'' \<or> c = CHR ''E'' then
            (case t of
               [] \<Rightarrow> None
             | sg # ds \<Rightarrow>
                 if sg = CHR ''+'' then map_option int (parse_digits 10 ds)
                 else if sg = CHR ''-'' then map_option (\<lambda>n. - int n) (parse_digits 10 ds)
                 else map_option int (parse_digits 10 t))
          else None)"

text \<open>
  An unsigned decimal literal: \<open>Infinity\<close>, or digits with an optional fraction and an
  optional exponent, where the integer part or the fraction may be empty but not both.
\<close>

definition parse_unsigned_decimal :: "string \<Rightarrow> jsnum option" where
  "parse_unsigned_decimal s =
     (if s = ''Infinity'' then Some PosInf
      else let ip = takeWhile is_digit s;
               r1 = dropWhile is_digit s;
               dot = (r1 \<noteq> [] \<and> hd r1 = CHR ''.'');
               fp = (if dot then takeWhile is_digit (tl r1) else []);
               r2 = (if dot then dropWhile is_digit (tl r1) else r1)
           in if ip = [] \<and> fp = [] then None
              else case parse_exponent r2 of
                     None \<Rightarrow> None
                   | Some ex \<Rightarrow>
                       Some (round_double
                         (of_nat (digits_value 10 (ip @ fp))
                            * pow10 (ex - int (length fp)))))"

text \<open>A literal in base 16, 8 or 2: \<open>0x\<close>, \<open>0o\<close> or \<open>0b\<close> (either case) and digits.\<close>

definition parse_non_decimal :: "string \<Rightarrow> jsnum option option" where
  "parse_non_decimal s =
     (case s of
        z # p # ds \<Rightarrow>
          if z \<noteq> CHR ''0'' then None
          else if p = CHR ''x'' \<or> p = CHR ''X'' then
            Some (map_option (\<lambda>n. round_double (of_nat n)) (parse_digits 16 ds))
          else if p = CHR ''o'' \<or> p = CHR ''O'' then
            Some (map_option (\<lambda>n. round_double (of_nat n)) (parse_digits 8 ds))
          else if p = CHR ''b'' \<or> p = CHR ''B'' then
            Some (map_option (\<lambda>n. round_double (of_nat n)) (parse_digits 2 ds))
          else None
      | _ \<Rightarrow> None)"

text \<open>
  \<^verbatim>\<open>Number(s)\<close> for a string: white space is stripped, the empty string is \<open>+0\<close>, a
  numeric literal is its value rounded to a double, and anything else is \<open>NaN\<close>.
\<close>

definition StringToNumber :: "string \<Rightarrow> jsnum" where
  "StringToNumber s =
     (let t = trim s
      in if t = [] then Fin 0
         else case parse_non_decimal t of
                Some r \<Rightarrow> (case r of None \<Rightarrow> NaN | Some n \<Rightarrow> n)
              | None \<Rightarrow>
                  (let r = (if hd t = CHR ''+'' then parse_unsigned_decimal (tl t)
                            else if hd t = CHR ''-''
                              then map_option js_neg (parse_unsigned_decimal (tl t))
                            else parse_unsigned_decimal t)
                   in case r of None \<Rightarrow> NaN | Some n \<Rightarrow> n))"

section \<open>Values of a response body\<close>

text \<open>
  The \<^verbatim>\<open>data\<close> of an axios response is a parsed JSON document, or a string when the body
  is no JSON. \<open>JUndefined\<close> is the value of a property that is not there. An object is
  the list of its own properties, each key once.
\<close>

datatype jsval =
    JUndefined
  | JNull
  | JBool bool
  | JNumber jsnum
  | JString string
  | JArray "jsval list"
  | JObject "(string \<times> jsval) list"

datatype exn = Error string | AxiosError | TypeError

text \<open>
  \<^verbatim>\<open>v.k\<close> for the property names that \<^verbatim>\<open>App.tsx\<close> reads (\<^verbatim>\<open>c\<close>, \<^verbatim>\<open>pc\<close>, \<^verbatim>\<open>symbol\<close>,
  \<^verbatim>\<open>price\<close>, \<^verbatim>\<open>changesPercentage\<close>; no prototype defines one of them): reading a property
  of \<^verbatim>\<open>null\<close> or \<^verbatim>\<open>undefined\<close> throws a \<^verbatim>\<open>TypeError\<close>, an object gives its own property,
  and every other value gives \<^verbatim>\<open>undefined\<close>.
\<close>

fun get_prop :: "jsval \<Rightarrow> string \<Rightarrow> exn + jsval" where
  "get_prop JUndefined k = Inl TypeError"
| "get_prop JNull k = Inl TypeError"
| "get_prop (JObject kvs) k = Inr (case map_of kvs k of None \<Rightarrow> JUndefined | Some v \<Rightarrow> v)"
| "get_prop v k = Inr JUndefined"

text \<open>\<^verbatim>\<open>v?.k\<close>: \<^verbatim>\<open>undefined\<close> where \<^verbatim>\<open>v\<close> is \<^verbatim>\<open>null\<close> or \<^verbatim>\<open>undefined\<close>, and never throws.\<close>

definition opt_prop :: "jsval \<Rightarrow> string \<Rightarrow> jsval" where
  "opt_prop v k = (case get_prop v k of Inl e \<Rightarrow> JUndefined | Inr x \<Rightarrow> x)"

text \<open>
  \<^verbatim>\<open>Number(v)\<close> converts an object or an array through \<^verbatim>\<open>valueOf\<close> and \<^verbatim>\<open>toString\<close>. The
  inherited \<^verbatim>\<open>valueOf\<close> returns the value itself, which is no primitive, so the string
  decides. An object that has a property \<^verbatim>\<open>toString\<close> of its own (after \<^verbatim>\<open>JSON.parse\<close> it
  is never a function) hides the inherited method, no method is left, and the conversion
  throws a \<^verbatim>\<open>TypeError\<close>. The string of an array joins the strings of all its elements,
  so the conversion of an array throws when the string of one of its elements does.
\<close>

fun Number_throws :: "jsval \<Rightarrow> bool" where
  "Number_throws (JObject kvs) = (map_of kvs ''toString'' \<noteq> None)"
| "Number_throws (JArray vs) = list_ex Number_throws vs"
| "Number_throws v = False"

text \<open>
  The number that \<^verbatim>\<open>Number(v)\<close> returns when it does not throw. An array is converted
  through its string, the elements joined with commas: the empty array is the empty
  string, hence \<open>+0\<close>; an array of one element is that element's string (empty for
  \<^verbatim>\<open>null\<close>, and a number prints so that it reads back as itself, \<open>-0\<close> printing as \<open>0\<close>); a
  longer array has a comma in its string, which no numeric literal has. An object
  prints as \<^verbatim>\<open>[object Object]\<close>.
\<close>

fun number_value :: "jsval \<Rightarrow> jsnum" where
  "number_value JUndefined = NaN"
| "number_value JNull = Fin 0"
| "number_value (JBool b) = (if b then Fin 1 else Fin 0)"
| "number_value (JNumber n) = n"
| "number_value (JString s) = StringToNumber s"
| "number_value (JArray []) = Fin 0"
| "number_value (JArray [JUndefined]) = Fin 0"
| "number_value (JArray [JNull]) = Fin 0"
| "number_value (JArray [JBool b]) = NaN"
| "number_value (JArray [JNumber n]) = (if n = NegZero then Fin 0 else n)"
| "number_value (JArray [JString s]) = StringToNumber s"
| "number_value (JArray [JArray vs]) = number_value (JArray vs)"
| "number_value (JArray [JObject kvs]) = NaN"
| "number_value (JArray (v # v' # vs)) = NaN"
| "number_value (JObject kvs) = NaN"

text \<open>\<^verbatim>\<open>Number(v)\<close>\<close>

definition ToNumber :: "jsval \<Rightarrow> exn + jsnum" where
  "ToNumber v = (if Number_throws v then Inl TypeError else Inr (number_value v))"

section \<open>The component's state and its environment\<close>

datatype provider = Finnhub | FMP | TwelveData | Demo

record Stock =
  symbol :: jsval
  price :: jsnum
  change :: jsnum

text \<open>A call of \<^verbatim>\<open>axios.get\<close>: the URL and the \<^verbatim>\<open>params\<close>.\<close>

datatype request = Get string "(string \<times> string) list"

text \<open>
  The state that \<^verbatim>\<open>run\<close> writes (\<^verbatim>\<open>useState\<close>), and with it the calls of \<^verbatim>\<open>axios.get\<close>
  made so far, in the order of the calls.
\<close>

record state =
  stocks :: "Stock list"
  loading :: bool
  error :: string
  "note" :: string
  dataSource :: provider
  calls :: "request list"

text \<open>
  What the component does not decide: the variable \<^verbatim>\<open>REACT_APP_FINNHUB_KEY\<close> of the
  environment (\<open>None\<close> when it is not set), and for each request what the provider
  answers: the \<^verbatim>\<open>data\<close> of the response, or the rejection of \<^verbatim>\<open>axios.get\<close> (no network,
  a status outside 2xx).
\<close>

record env =
  REACT_APP_FINNHUB_KEY :: "string option"
  network :: "request \<Rightarrow> exn + jsval"

definition SYMBOLS :: "string list" where
  "SYMBOLS = [''AAPL'', ''MSFT'', ''GOOGL'', ''AMZN'']"

text \<open>\<^verbatim>\<open>(process.env.REACT_APP_FINNHUB_KEY || "").trim()\<close>\<close>

definition API_KEY :: "env \<Rightarrow> string" where
  "API_KEY e = trim (case REACT_APP_FINNHUB_KEY e of None \<Rightarrow> [] | Some s \<Rightarrow> s)"

text \<open>The state after the \<^verbatim>\<open>useState\<close> calls, before any effect has run.\<close>

definition initial :: state where
  "initial = \<lparr>stocks = [], loading = True, error = [], note = [], dataSource = Demo,
     calls = []\<rparr>"

section \<open>The computations of the effect\<close>

text \<open>
  A computation takes the state and returns the state it leaves, with a value or the
  exception it throws: what it wrote before throwing stays written.
\<close>

type_synonym 'a io = "state \<Rightarrow> (exn + 'a) \<times> state"

definition and_then :: "'a io \<Rightarrow> ('a \<Rightarrow> 'b io) \<Rightarrow> 'b io" where
  "and_then m f w = (case m w of (Inl e, w') \<Rightarrow> (Inl e, w') | (Inr v, w') \<Rightarrow> f v w')"

text \<open>\<^verbatim>\<open>try { body } catch { handler }\<close>: the handler does not look at the exception.\<close>

definition try_catch :: "'a io \<Rightarrow> 'a io \<Rightarrow> 'a io" where
  "try_catch body handler w =
     (case body w of (Inl e, w') \<Rightarrow> handler w' | (Inr v, w') \<Rightarrow> (Inr v, w'))"

text \<open>\<^verbatim>\<open>try { body } finally { fin }\<close>, for a \<^verbatim>\<open>finally\<close> block that is a state update.\<close>

definition try_finally :: "'a io \<Rightarrow> (state \<Rightarrow> state) \<Rightarrow> 'a io" where
  "try_finally body fin w = (case body w of (r, w') \<Rightarrow> (r, fin w'))"

text \<open>The setters of \<^verbatim>\<open>useState\<close>.\<close>

definition setStocks :: "Stock list \<Rightarrow> unit io" where
  "setStocks res w = (Inr (), w\<lparr>stocks := res\<rparr>)"

definition setDataSource :: "provider \<Rightarrow> unit io" where
  "setDataSource p w = (Inr (), w\<lparr>dataSource := p\<rparr>)"

definition setNote :: "string \<Rightarrow> unit io" where
  "setNote s w = (Inr (), w\<lparr>note := s\<rparr>)"

text \<open>
  The results of several computations that have all been started: all the values, in
  the order of the list, or an exception when one of them throws. This is
  \<^verbatim>\<open>Promise.all\<close> on the promises of the list, and also \<^verbatim>\<open>Array.prototype.map\<close> with a
  callback that may throw. (\<^verbatim>\<open>Promise.all\<close> rejects with the rejection that comes first in
  time; here it is the first of the list. Every \<^verbatim>\<open>catch\<close> of \<^verbatim>\<open>run\<close> discards the
  exception.)
\<close>

fun all_results :: "(exn + 'a) list \<Rightarrow> exn + 'a list" where
  "all_results [] = Inr []"
| "all_results (r # rs) =
     (case r of
        Inl e \<Rightarrow> Inl e
      | Inr v \<Rightarrow> (case all_results rs of Inl e \<Rightarrow> Inl e | Inr vs \<Rightarrow> Inr (v # vs)))"

subsection \<open>Finnhub\<close>

definition finnhub_request :: "string \<Rightarrow> string \<Rightarrow> request" where
  "finnhub_request key smb =
     Get ''https://finnhub.io/api/v1/quote'' [(''symbol'', smb), (''token'', key)]"

text \<open>
  The rest of the callback of \<^verbatim>\<open>SYMBOLS.map\<close> once \<^verbatim>\<open>axios.get\<close> has settled:
  \<^verbatim>\<open>price = Number(data.c)\<close>, \<^verbatim>\<open>prev = Number(data.pc)\<close>,
  \<^verbatim>\<open>change = prev ? ((price - prev) / prev) * 100 : 0\<close>. Reading a property and
  converting it can each throw, and no \<^verbatim>\<open>try\<close> is around them.
\<close>

definition finnhub_quote :: "string \<Rightarrow> exn + jsval \<Rightarrow> exn + Stock" where
  "finnhub_quote smb resp =
     (case resp of
        Inl e \<Rightarrow> Inl e
      | Inr data \<Rightarrow>
          (case get_prop data ''c'' of
             Inl e \<Rightarrow> Inl e
           | Inr c \<Rightarrow>
               (case ToNumber c of
                  Inl e \<Rightarrow> Inl e
                | Inr p \<Rightarrow>
                    (case get_prop data ''pc'' of
                       Inl e \<Rightarrow> Inl e
                     | Inr pc \<Rightarrow>
                         (case ToNumber pc of
                            Inl e \<Rightarrow> Inl e
                          | Inr pv \<Rightarrow>
                              (let change =
                                     (if truthy pv
                                      then js_mul (js_div (js_sub p pv) pv) (Fin 100)
                                      else Fin 0)
                               in Inr \<lparr>symbol = JString smb, price = p,
                                       change = change\<rparr>))))))"

text \<open>
  \<^verbatim>\<open>fetchWithFinnhub\<close>: without a key it throws before any request. Otherwise
  \<^verbatim>\<open>SYMBOLS.map\<close> calls \<^verbatim>\<open>axios.get\<close> once for each symbol, and \<^verbatim>\<open>setDataSource\<close> runs only
  when every callback has returned a quote.
\<close>

definition fetchWithFinnhub :: "env \<Rightarrow> Stock list io" where
  "fetchWithFinnhub e w =
     (if API_KEY e = [] then (Inl (Error ''no-key''), w)
      else let w1 = w\<lparr>calls := calls w @ map (finnhub_request (API_KEY e)) SYMBOLS\<rparr>
           in case all_results
                     (map (\<lambda>smb. finnhub_quote smb (network e (finnhub_request (API_KEY e) smb)))
                        SYMBOLS) of
                Inl ex \<Rightarrow> (Inl ex, w1)
              | Inr results \<Rightarrow> (Inr results, w1\<lparr>dataSource := Finnhub\<rparr>))"

subsection \<open>FMP\<close>

text \<open>\<^verbatim>\<open>xs.join(sep)\<close> on an array of strings.\<close>

fun join :: "string \<Rightarrow> string list \<Rightarrow> string" where
  "join sep [] = []"
| "join sep [x] = x"
| "join sep (x # y # ys) = x @ sep @ join sep (y # ys)"

definition fmp_request :: request where
  "fmp_request =
     Get (''https://financialmodelingprep.com/api/v3/quote/'' @ join '','' SYMBOLS
            @ ''?apikey=demo'') []"

text \<open>The callback of \<^verbatim>\<open>data.map\<close>: one quote from one element of the response.\<close>

definition fmp_quote :: "jsval \<Rightarrow> exn + Stock" where
  "fmp_quote d =
     (case get_prop d ''symbol'' of
        Inl e \<Rightarrow> Inl e
      | Inr smb \<Rightarrow>
          (case get_prop d ''price'' of
             Inl e \<Rightarrow> Inl e
           | Inr pj \<Rightarrow>
               (case ToNumber pj of
                  Inl e \<Rightarrow> Inl e
                | Inr p \<Rightarrow>
                    (case get_prop d ''changesPercentage'' of
                       Inl e \<Rightarrow> Inl e
                     | Inr cp \<Rightarrow>
                         (case ToNumber cp of
                            Inl e \<Rightarrow> Inl e
                          | Inr ch \<Rightarrow>
                              Inr \<lparr>symbol = smb, price = p, change = ch\<rparr>)))))"

text \<open>
  \<^verbatim>\<open>data.map(f)\<close>: only an array has a \<^verbatim>\<open>map\<close> that can be called; on any other value the
  call throws a \<^verbatim>\<open>TypeError\<close>.
\<close>

fun array_map :: "(jsval \<Rightarrow> exn + 'a) \<Rightarrow> jsval \<Rightarrow> exn + 'a list" where
  "array_map f (JArray ds) = all_results (map f ds)"
| "array_map f v = Inl TypeError"

definition fetchWithFMP :: "env \<Rightarrow> Stock list io" where
  "fetchWithFMP e w =
     (let w1 = w\<lparr>calls := calls w @ [fmp_request]\<rparr>
      in case network e fmp_request of
           Inl ex \<Rightarrow> (Inl ex, w1)
         | Inr data \<Rightarrow>
             (case array_map fmp_quote data of
                Inl ex \<Rightarrow> (Inl ex, w1)
              | Inr mapped \<Rightarrow> (Inr mapped, w1\<lparr>dataSource := FMP\<rparr>)))"

subsection \<open>TwelveData\<close>

text \<open>A numeric literal of the source: the double nearest to the decimal.\<close>

definition lit :: "rat \<Rightarrow> jsnum" where
  "lit q = round_double q"

definition FALLBACK :: "string \<rightharpoonup> jsnum" where
  "FALLBACK = map_of
     [(''AAPL'', lit 228.48),
      (''MSFT'', lit 452.12),
      (''GOOGL'', lit 165.39),
      (''AMZN'', lit 182.77)]"

text \<open>\<^verbatim>\<open>FALLBACK[sym] ?? 0\<close>\<close>

definition fallback_price :: "string \<Rightarrow> jsnum" where
  "fallback_price smb = (case FALLBACK smb of None \<Rightarrow> Fin 0 | Some p \<Rightarrow> p)"

definition twelvedata_request :: "string \<Rightarrow> request" where
  "twelvedata_request smb =
     Get ''https://api.twelvedata.com/price'' [(''symbol'', smb), (''apikey'', ''demo'')]"

text \<open>
  The body of the \<^verbatim>\<open>try\<close> in the callback, once \<^verbatim>\<open>axios.get\<close> has settled: the request
  may have been rejected, and \<^verbatim>\<open>Number(data?.price)\<close> may throw.
\<close>

definition twelvedata_try :: "string \<Rightarrow> exn + jsval \<Rightarrow> exn + Stock" where
  "twelvedata_try smb resp =
     (case resp of
        Inl e \<Rightarrow> Inl e
      | Inr data \<Rightarrow>
          (case ToNumber (opt_prop data ''price'') of
             Inl e \<Rightarrow> Inl e
           | Inr raw \<Rightarrow>
               (let price = (if isFinite raw then raw else fallback_price smb)
                in Inr \<lparr>symbol = JString smb, price = price, change = Fin 0\<rparr>)))"

text \<open>The callback with its \<^verbatim>\<open>catch\<close>.\<close>

definition twelvedata_quote :: "string \<Rightarrow> exn + jsval \<Rightarrow> exn + Stock" where
  "twelvedata_quote smb resp =
     (case twelvedata_try smb resp of
        Inl e \<Rightarrow> Inr \<lparr>symbol = JString smb, price = fallback_price smb, change = Fin 0\<rparr>
      | Inr q \<Rightarrow> Inr q)"

definition fetchWithTwelveData :: "env \<Rightarrow> Stock list io" where
  "fetchWithTwelveData e w =
     (let w1 = w\<lparr>calls := calls w @ map twelvedata_request SYMBOLS\<rparr>
      in case all_results
                (map (\<lambda>smb. twelvedata_quote smb (network e (twelvedata_request smb))) SYMBOLS) of
           Inl ex \<Rightarrow> (Inl ex, w1)
         | Inr out \<Rightarrow>
             (Inr out,
              w1\<lparr>dataSource := TwelveData,
                 note := ''TwelveData demo in use; missing quotes filled with sample prices.''\<rparr>))"

subsection \<open>The cascade\<close>

definition DEMO :: "Stock list" where
  "DEMO =
     [\<lparr>symbol = JString ''AAPL'', price = lit 228.48, change = lit 0.87\<rparr>,
      \<lparr>symbol = JString ''MSFT'', price = lit 452.12, change = js_neg (lit 0.32)\<rparr>,
      \<lparr>symbol = JString ''GOOGL'', price = lit 165.39, change = lit 0.41\<rparr>,
      \<lparr>symbol = JString ''AMZN'', price = lit 182.77, change = lit 1.12\<rparr>]"

text \<open>The last \<^verbatim>\<open>catch\<close> block of \<^verbatim>\<open>run\<close>.\<close>

definition use_demo :: "unit io" where
  "use_demo =
     and_then (setStocks DEMO) (\<lambda>_.
     and_then (setDataSource Demo) (\<lambda>_.
     setNote ''Using local demo data (APIs unavailable).''))"

text \<open>
  \<^verbatim>\<open>run\<close>, over the three fetch functions it calls: the nested \<^verbatim>\<open>try\<close>/\<^verbatim>\<open>catch\<close> blocks
  inside \<^verbatim>\<open>try\<close>/\<^verbatim>\<open>finally\<close>, after the three setters that reset the state.
\<close>

definition run_with :: "Stock list io \<Rightarrow> Stock list io \<Rightarrow> Stock list io \<Rightarrow> unit io" where
  "run_with fetchA fetchB fetchC w =
     try_finally
       (try_catch (and_then fetchA setStocks)
          (try_catch (and_then fetchB setStocks)
             (try_catch (and_then fetchC setStocks)
                use_demo)))
       (\<lambda>w'. w'\<lparr>loading := False\<rparr>)
       (w\<lparr>loading := True, error := [], note := []\<rparr>)"

definition run :: "env \<Rightarrow> unit io" where
  "run e = run_with (fetchWithFinnhub e) (fetchWithFMP e) (fetchWithTwelveData e)"

section \<open>Environments used as examples\<close>

text \<open>No key, and every request is rejected.\<close>

definition env_down :: env where
  "env_down = \<lparr>REACT_APP_FINNHUB_KEY = None, network = (\<lambda>r. Inl AxiosError)\<rparr>"

text \<open>A key, and every request is answered with a current price 110 and a previous close 100.\<close>

definition env_finnhub :: env where
  "env_finnhub =
     \<lparr>REACT_APP_FINNHUB_KEY = Some ''k'',
      network = (\<lambda>r. Inr (JObject [(''c'', JNumber (Fin 110)), (''pc'', JNumber (Fin 100))]))\<rparr>"

definition fmp_item :: "string \<Rightarrow> rat \<Rightarrow> rat \<Rightarrow> jsval" where
  "fmp_item smb p c =
     JObject [(''symbol'', JString smb), (''price'', JNumber (Fin p)),
              (''changesPercentage'', JNumber (Fin c))]"

text \<open>No key; FMP answers with one element for each symbol, in order; the rest is rejected.\<close>

definition env_fmp :: env where
  "env_fmp =
     \<lparr>REACT_APP_FINNHUB_KEY = None,
      network = (\<lambda>r. if r = fmp_request
                       then Inr (JArray [fmp_item ''AAPL'' 200 1, fmp_item ''MSFT'' 400 2,
                                         fmp_item ''GOOGL'' 150 3, fmp_item ''AMZN'' 180 4])
                       else Inl AxiosError)\<rparr>"

text \<open>No key; FMP answers with a single element, for the second symbol.\<close>

definition env_fmp_short :: env where
  "env_fmp_short =
     \<lparr>REACT_APP_FINNHUB_KEY = None,
      network = (\<lambda>r. if r = fmp_request then Inr (JArray [fmp_item ''MSFT'' 400 2])
                       else Inl AxiosError)\<rparr>"

text \<open>
  A key; FMP answers with the empty array, and every other request is answered with the
  empty object: no field of a quote is there.
\<close>

definition env_malformed :: env where
  "env_malformed =
     \<lparr>REACT_APP_FINNHUB_KEY = Some ''k'',
      network = (\<lambda>r. if r = fmp_request then Inr (JArray []) else Inr (JObject []))\<rparr>"

text \<open>No key; FMP is rejected, and TwelveData answers every request with the price 100.\<close>

definition env_twelvedata :: env where
  "env_twelvedata =
     \<lparr>REACT_APP_FINNHUB_KEY = None,
      network = (\<lambda>r. if r = fmp_request then Inl AxiosError
                       else Inr (JObject [(''price'', JNumber (Fin 100))]))\<rparr>"

text \<open>A fetch function whose request is rejected: it throws and writes nothing.\<close>

definition fetch_rejected :: "Stock list io" where
  "fetch_rejected w = (Inl AxiosError, w)"

section \<open>Facts about the building blocks\<close>

lemma all_results_map_Inr: "all_results (map (\<lambda>x. Inr (f x)) xs) = Inr (map f xs)"
  by (induction xs) simp_all

text \<open>The nested blocks of \<^verbatim>\<open>run\<close>, read as the four ways through them.\<close>

lemma run_with_unfold:
  "run_with fetchA fetchB fetchC w =
     (case fetchA (w\<lparr>loading := True, error := [], note := []\<rparr>) of
        (Inr res, w1) \<Rightarrow> (Inr (), w1\<lparr>stocks := res, loading := False\<rparr>)
      | (Inl ea, w1) \<Rightarrow>
          (case fetchB w1 of
             (Inr res, w2) \<Rightarrow> (Inr (), w2\<lparr>stocks := res, loading := False\<rparr>)
           | (Inl eb, w2) \<Rightarrow>
               (case fetchC w2 of
                  (Inr res, w3) \<Rightarrow> (Inr (), w3\<lparr>stocks := res, loading := False\<rparr>)
                | (Inl ec, w3) \<Rightarrow>
                    (Inr (), w3\<lparr>stocks := DEMO, dataSource := Demo,
                       note := ''Using local demo data (APIs unavailable).'',
                       loading := False\<rparr>))))"
  by (simp add: run_with_def try_finally_def try_catch_def and_then_def use_demo_def
      setStocks_def setDataSource_def setNote_def split: prod.splits sum.splits)

subsection \<open>The rounding\<close>

text \<open>\<open>floor_log2\<close> is the binary exponent, and \<open>round_half_even\<close> moves by a half at most.\<close>

lemma floor_log2_bounds:
  assumes "0 < a"
  shows "pow2 (floor_log2 a) \<le> a \<and> a < pow2 (floor_log2 a + 1)"
proof (cases "1 \<le> a")
  case True
  define n where "n = \<lfloor>a\<rfloor>"
  have n: "0 < n" "of_int n \<le> a" "a < of_int n + 1"
    using True by (auto simp: n_def) linarith+
  from bitlen_bounds [OF n(1)] have b: "2 ^ nat (bitlen n - 1) \<le> n" "n < 2 ^ nat (bitlen n)"
    by simp_all
  have pos: "1 \<le> bitlen n"
    using n(1) by (simp add: bitlen_alt_def)
  have e: "floor_log2 a = bitlen n - 1"
    using True by (simp add: floor_log2_def n_def)
  have "(2::rat) ^ nat (bitlen n - 1) \<le> of_int n"
    using b(1) by (metis of_int_le_iff of_int_numeral of_int_power)
  with n(2) have "(2::rat) ^ nat (bitlen n - 1) \<le> a"
    by linarith
  then have lo: "pow2 (bitlen n - 1) \<le> a"
    using pos by (simp add: pow2_def)
  have "n + 1 \<le> 2 ^ nat (bitlen n)"
    using b(2) by simp
  then have "rat_of_int (n + 1) \<le> 2 ^ nat (bitlen n)"
    by (metis of_int_le_iff of_int_numeral of_int_power)
  with n(3) have "a < 2 ^ nat (bitlen n)"
    by simp
  then have hi: "a < pow2 (bitlen n)"
    using pos by (simp add: pow2_def)
  from lo hi show ?thesis
    by (simp add: e)
next
  case False
  define c where "c = \<lceil>1 / a\<rceil>"
  define k where "k = bitlen (c - 1)"
  from False assms have inv: "1 < 1 / a"
    by simp
  have c: "1 / a \<le> of_int c" "of_int c - 1 < 1 / a" "2 \<le> c"
    using inv by (auto simp: c_def) linarith+
  then have c1: "0 < c - 1"
    by simp
  from bitlen_bounds [OF c1] have b: "2 ^ nat (k - 1) \<le> c - 1" "c - 1 < 2 ^ nat k"
    by (simp_all add: k_def)
  have pos: "1 \<le> k"
    using c1 by (simp add: k_def bitlen_alt_def)
  have e: "floor_log2 a = - k"
    using False by (simp add: floor_log2_def c_def k_def)
  have "c \<le> 2 ^ nat k"
    using b(2) by simp
  then have "rat_of_int c \<le> 2 ^ nat k"
    by (metis of_int_le_iff of_int_numeral of_int_power)
  with c(1) have "1 / a \<le> 2 ^ nat k"
    by linarith
  then have lo: "pow2 (- k) \<le> a"
    using assms pos by (simp add: pow2_def field_simps)
  have "(2::rat) ^ nat (k - 1) \<le> of_int (c - 1)"
    using b(1) by (metis of_int_le_iff of_int_numeral of_int_power)
  with c(2) have "2 ^ nat (k - 1) < 1 / a"
    by simp
  then have hi: "a < pow2 (- k + 1)"
    using assms pos by (auto simp: pow2_def field_simps)
  from lo hi show ?thesis
    by (simp add: e)
qed


lemma round_half_even_near: "\<bar>of_int (round_half_even r) - r\<bar> \<le> 1 / 2"
proof -
  have "of_int \<lfloor>r\<rfloor> \<le> r" "r < of_int \<lfloor>r\<rfloor> + 1"
    by linarith+
  then show ?thesis
    by (auto simp: round_half_even_def Let_def)
qed

text \<open>Evaluating \<open>round_double\<close> on a given rational, from its exponent and its significand.\<close>

lemma floor_rat_numeral: "\<lfloor>numeral a / numeral b :: rat\<rfloor> = numeral a div numeral b"
  by (metis floor_divide_of_int_eq of_int_numeral)

lemma ceiling_rat_numeral: "\<lceil>numeral a / numeral b :: rat\<rceil> = - (- numeral a div numeral b)"
  by (metis ceiling_def floor_divide_of_int_eq minus_divide_left of_int_minus of_int_numeral)

lemma round_double_cert:
  assumes q: "0 < q"
    and e: "floor_log2 q = e" "- 1022 \<le> e" "e \<le> 52"
    and m: "round_half_even (q * 2 ^ nat (52 - e)) = m" "0 < m" "m \<le> 2 ^ 53"
  shows "round_double q = Fin (of_int m / 2 ^ nat (52 - e))"
proof -
  have u: "pow2 (e - 52) = 1 / 2 ^ nat (52 - e)"
    using e by (auto simp: pow2_def)
  have "rat_of_int m \<le> 2 ^ 53"
    using m(3) by (metis of_int_le_iff of_int_numeral of_int_power)
  moreover have "(2::rat) ^ 53 < 2 ^ 1024"
    by (rule power_strict_increasing) simp_all
  moreover have "rat_of_int m / 2 ^ nat (52 - e) \<le> rat_of_int m"
    using m(2) by (simp add: divide_le_eq_1 field_simps)
  ultimately have small: "\<not> pow2 1024 \<le> rat_of_int m / 2 ^ nat (52 - e)"
    by (simp add: pow2_def)
  have emax: "max (floor_log2 q) (- 1022) = e"
    using e by simp
  have absq: "\<bar>q\<bar> = q"
    using q by simp
  have qu: "q / pow2 (e - 52) = q * 2 ^ nat (52 - e)"
    by (simp add: u)
  have r: "rat_of_int m * pow2 (e - 52) = rat_of_int m / 2 ^ nat (52 - e)"
    by (simp add: u)
  show ?thesis
    unfolding round_double_def Let_def absq emax qu m(1) r
    using q m(2) small by simp
qed

lemmas round_double_eval =
  floor_log2_def compute_bitlen floor_rat_numeral ceiling_rat_numeral round_half_even_def Let_def

lemma round_double_10: "round_double 10 = Fin 10"
  using round_double_cert [of 10 3 5629499534213120]
  by (simp add: round_double_eval)

lemma round_double_tenth: "round_double (1 / 10) = Fin (3602879701896397 / 36028797018963968)"
  using round_double_cert [of "1 / 10" "- 4" 7205759403792794]
  by (simp add: round_double_eval)

lemma round_double_ten_up:
  "round_double (3602879701896397 / 36028797018963968 * 100) = Fin 10"
  using round_double_cert [of "3602879701896397 / 36028797018963968 * 100" 3 5629499534213120]
  by (simp add: round_double_eval)

lemma change_110_100:
  "js_mul (js_div (js_sub (Fin 110) (Fin 100)) (Fin 100)) (Fin 100) = Fin 10"
proof -
  have "js_sub (Fin 110) (Fin 100) = Fin 10"
    by (simp add: js_sub_def round_double_10)
  moreover have "js_div (Fin 10) (Fin 100) = Fin (3602879701896397 / 36028797018963968)"
    using round_double_tenth by (simp add: js_div_def)
  moreover have "js_mul (Fin (3602879701896397 / 36028797018963968)) (Fin 100) = Fin 10"
    using round_double_ten_up by (simp add: js_mul_def)
  ultimately show ?thesis by simp
qed

subsection \<open>The fetch functions\<close>

lemma ToNumber_Inl_iff: "(\<exists>ex. ToNumber v = Inl ex) \<longleftrightarrow> Number_throws v"
  by (simp add: ToNumber_def)

lemma ToNumber_primitive:
  "ToNumber JUndefined = Inr NaN"
  "ToNumber (JNumber n) = Inr n"
  "ToNumber (JString s) = Inr (StringToNumber s)"
  by (simp_all add: ToNumber_def)

lemma finnhub_quote_symbol: "finnhub_quote smb resp = Inr q \<Longrightarrow> symbol q = JString smb"
  by (auto simp: finnhub_quote_def Let_def split: sum.splits)

lemma all_results_symbols:
  assumes "all_results (map (\<lambda>smb. f smb (g smb)) ss) = Inr res"
    and "\<And>smb q. f smb (g smb) = Inr q \<Longrightarrow> symbol q = JString smb"
  shows "map symbol res = map JString ss"
  using assms
proof (induction ss arbitrary: res)
  case Nil
  then show ?case by simp
next
  case (Cons a ss)
  then show ?case by (auto split: sum.splits)
qed

lemma fetchWithFinnhub_no_key:
  "API_KEY e = [] \<Longrightarrow> fetchWithFinnhub e w = (Inl (Error ''no-key''), w)"
  by (simp add: fetchWithFinnhub_def)

lemma fetchWithFinnhub_outcome: "fst (fetchWithFinnhub e w) = fst (fetchWithFinnhub e w')"
  by (simp add: fetchWithFinnhub_def Let_def split: sum.splits)

lemma fetchWithFinnhub_Inr:
  assumes "fst (fetchWithFinnhub e w) = Inr res"
  shows "fetchWithFinnhub e w =
           (Inr res, w\<lparr>calls := calls w @ map (finnhub_request (API_KEY e)) SYMBOLS,
                        dataSource := Finnhub\<rparr>)"
    and "map symbol res = map JString SYMBOLS"
proof -
  from assms have key: "API_KEY e \<noteq> []"
    by (auto simp: fetchWithFinnhub_def)
  from assms key have res:
    "all_results (map (\<lambda>smb. finnhub_quote smb (network e (finnhub_request (API_KEY e) smb)))
        SYMBOLS) = Inr res"
    by (auto simp: fetchWithFinnhub_def Let_def split: sum.splits)
  from key res show "fetchWithFinnhub e w =
           (Inr res, w\<lparr>calls := calls w @ map (finnhub_request (API_KEY e)) SYMBOLS,
                        dataSource := Finnhub\<rparr>)"
    by (simp add: fetchWithFinnhub_def Let_def)
  from res show "map symbol res = map JString SYMBOLS"
    by (rule all_results_symbols) (rule finnhub_quote_symbol)
qed

lemma fmp_quote_Inr: "fmp_quote d = Inr q \<Longrightarrow> symbol q = opt_prop d ''symbol''"
  by (auto simp: fmp_quote_def opt_prop_def split: sum.splits)

lemma all_results_fmp:
  "all_results (map fmp_quote ds) = Inr res \<Longrightarrow>
     map symbol res = map (\<lambda>d. opt_prop d ''symbol'') ds"
  by (induction ds arbitrary: res) (auto split: sum.splits dest: fmp_quote_Inr)

lemma fetchWithFMP_Inr:
  assumes "fst (fetchWithFMP e w) = Inr res"
  shows "fetchWithFMP e w = (Inr res, w\<lparr>calls := calls w @ [fmp_request], dataSource := FMP\<rparr>)"
    and "\<exists>ds. network e fmp_request = Inr (JArray ds) \<and>
              map symbol res = map (\<lambda>d. opt_prop d ''symbol'') ds"
proof -
  from assms obtain data where data: "network e fmp_request = Inr data"
    and m: "array_map fmp_quote data = Inr res"
    by (auto simp: fetchWithFMP_def Let_def split: sum.splits)
  from data m show "fetchWithFMP e w =
      (Inr res, w\<lparr>calls := calls w @ [fmp_request], dataSource := FMP\<rparr>)"
    by (simp add: fetchWithFMP_def Let_def)
  from m obtain ds where ds: "data = JArray ds"
    by (cases data) simp_all
  with m have "map symbol res = map (\<lambda>d. opt_prop d ''symbol'') ds"
    by (simp add: all_results_fmp)
  with data ds show "\<exists>ds. network e fmp_request = Inr (JArray ds) \<and>
              map symbol res = map (\<lambda>d. opt_prop d ''symbol'') ds"
    by blast
qed

lemma twelvedata_quote_eq:
  "twelvedata_quote smb resp =
     Inr \<lparr>symbol = JString smb,
          price = (case resp of
                     Inl ex \<Rightarrow> fallback_price smb
                   | Inr data \<Rightarrow>
                       (case ToNumber (opt_prop data ''price'') of
                          Inl ex \<Rightarrow> fallback_price smb
                        | Inr raw \<Rightarrow> if isFinite raw then raw else fallback_price smb)),
          change = Fin 0\<rparr>"
  by (simp add: twelvedata_quote_def twelvedata_try_def Let_def split: sum.splits)

lemma fetchWithTwelveData_eq:
  "fetchWithTwelveData e w =
     (Inr (map (\<lambda>smb.
             \<lparr>symbol = JString smb,
              price = (case network e (twelvedata_request smb) of
                         Inl ex \<Rightarrow> fallback_price smb
                       | Inr data \<Rightarrow>
                           (case ToNumber (opt_prop data ''price'') of
                              Inl ex \<Rightarrow> fallback_price smb
                            | Inr raw \<Rightarrow> if isFinite raw then raw else fallback_price smb)),
              change = Fin 0\<rparr>) SYMBOLS),
      w\<lparr>calls := calls w @ map twelvedata_request SYMBOLS,
        dataSource := TwelveData,
        note := ''TwelveData demo in use; missing quotes filled with sample prices.''\<rparr>)"
  unfolding fetchWithTwelveData_def Let_def twelvedata_quote_eq all_results_map_Inr
  by simp

lemma run_via_finnhub:
  assumes "fst (fetchWithFinnhub e w) = Inr res"
  shows "run_with (fetchWithFinnhub e) fetchB fetchC w =
           (Inr (), w\<lparr>loading := False, error := [], note := [],
                       calls := calls w @ map (finnhub_request (API_KEY e)) SYMBOLS,
                       dataSource := Finnhub, stocks := res\<rparr>)"
proof -
  from assms have "fst (fetchWithFinnhub e (w\<lparr>loading := True, error := [], note := []\<rparr>)) = Inr res"
    using fetchWithFinnhub_outcome [of e "w\<lparr>loading := True, error := [], note := []\<rparr>" w] by simp
  from fetchWithFinnhub_Inr(1) [OF this] show ?thesis
    by (simp add: run_with_unfold)
qed

lemma run_via_fmp:
  assumes "fst (fetchWithFinnhub e w) = Inl ex" and "fst (fetchWithFMP e w) = Inr res"
  shows "dataSource (snd (run e w)) = FMP \<and> stocks (snd (run e w)) = res"
proof -
  let ?w0 = "w\<lparr>loading := True, error := [], note := []\<rparr>"
  from assms(1) have a: "fst (fetchWithFinnhub e ?w0) = Inl ex"
    using fetchWithFinnhub_outcome [of e ?w0 w] by simp
  obtain w1 where w1: "fetchWithFinnhub e ?w0 = (Inl ex, w1)"
    using a by (cases "fetchWithFinnhub e ?w0") simp
  have "fst (fetchWithFMP e w1) = fst (fetchWithFMP e w)"
    by (simp add: fetchWithFMP_def Let_def split: sum.splits)
  with assms(2) have "fst (fetchWithFMP e w1) = Inr res"
    by simp
  from fetchWithFMP_Inr(1) [OF this] w1 show ?thesis
    by (simp add: run_def run_with_unfold)
qed

lemma API_KEY_env_finnhub: "API_KEY env_finnhub = ''k''"
  by (simp add: API_KEY_def env_finnhub_def trim_def is_ws_def)

lemma fetch_env_finnhub:
  "fst (fetchWithFinnhub env_finnhub w) =
     Inr (map (\<lambda>smb. \<lparr>symbol = JString smb, price = Fin 110, change = Fin 10\<rparr>) SYMBOLS)"
  unfolding fetchWithFinnhub_def API_KEY_env_finnhub
  by (simp add: Let_def finnhub_quote_def ToNumber_primitive change_110_100 all_results_map_Inr
      env_finnhub_def)

lemma fetch_env_fmp:
  "fst (fetchWithFMP env_fmp w) =
     Inr [\<lparr>symbol = JString ''AAPL'', price = Fin 200, change = Fin 1\<rparr>,
          \<lparr>symbol = JString ''MSFT'', price = Fin 400, change = Fin 2\<rparr>,
          \<lparr>symbol = JString ''GOOGL'', price = Fin 150, change = Fin 3\<rparr>,
          \<lparr>symbol = JString ''AMZN'', price = Fin 180, change = Fin 4\<rparr>]"
  by (simp add: fetchWithFMP_def env_fmp_def Let_def fmp_quote_def fmp_item_def ToNumber_primitive)

lemma API_KEY_env_down: "API_KEY env_down = []"
  by (simp add: API_KEY_def env_down_def trim_def)

lemma lit_AAPL: "lit 228.48 = Fin (8038925334856335 / 35184372088832)"
  unfolding lit_def using round_double_cert [of "228.48" 7 8038925334856335]
  by (simp add: round_double_eval)

lemma lit_MSFT: "lit 452.12 = Fin (3976889577200681 / 8796093022208)"
  unfolding lit_def using round_double_cert [of "452.12" 8 7953779154401362]
  by (simp add: round_double_eval)

lemma lit_GOOGL: "lit 165.39 = Fin (1454785824942981 / 8796093022208)"
  unfolding lit_def using round_double_cert [of "165.39" 7 5819143299771924]
  by (simp add: round_double_eval)

lemma lit_AMZN: "lit 182.77 = Fin (6430647686675825 / 35184372088832)"
  unfolding lit_def using round_double_cert [of "182.77" 7 6430647686675825]
  by (simp add: round_double_eval)

lemma isFinite_fallback_price: "isFinite (fallback_price smb)"
  unfolding fallback_price_def FALLBACK_def lit_AAPL lit_MSFT lit_GOOGL lit_AMZN
  by simp

lemma twelvedata_request_inj: "twelvedata_request a = twelvedata_request b \<longleftrightarrow> a = b"
  by (simp add: twelvedata_request_def)

lemma fetchWithFMP_outcome: "fst (fetchWithFMP e w) = fst (fetchWithFMP e w')"
  by (simp add: fetchWithFMP_def Let_def split: sum.splits)

lemma fetchWithFinnhub_Inl_note:
  "fetchWithFinnhub e w = (Inl ex, w') \<Longrightarrow> note w' = note w"
  by (auto simp: fetchWithFinnhub_def Let_def split: if_splits sum.splits)

text \<open>The three ways through \<^verbatim>\<open>run\<close> for the fetch functions of the component.\<close>

lemma run_cases:
  obtains
    (finnhub) res where "fst (fetchWithFinnhub e w) = Inr res"
      and "dataSource (snd (run e w)) = Finnhub" and "stocks (snd (run e w)) = res"
      and "note (snd (run e w)) = []"
  | (fmp) ea res where "fst (fetchWithFinnhub e w) = Inl ea" and "fst (fetchWithFMP e w) = Inr res"
      and "dataSource (snd (run e w)) = FMP" and "stocks (snd (run e w)) = res"
      and "note (snd (run e w)) = []"
  | (twelvedata) ea eb where "fst (fetchWithFinnhub e w) = Inl ea"
      and "fst (fetchWithFMP e w) = Inl eb"
      and "dataSource (snd (run e w)) = TwelveData"
      and "fst (fetchWithTwelveData e w) = Inr (stocks (snd (run e w)))"
      and "note (snd (run e w))
             = ''TwelveData demo in use; missing quotes filled with sample prices.''"
proof -
  let ?w0 = "w\<lparr>loading := True, error := [], note := []\<rparr>"
  show thesis
  proof (cases "fst (fetchWithFinnhub e ?w0)")
    case (Inr res)
    from fetchWithFinnhub_Inr(1) [OF this]
    have r: "dataSource (snd (run e w)) = Finnhub" "stocks (snd (run e w)) = res"
      "note (snd (run e w)) = []"
      by (simp_all add: run_def run_with_unfold)
    from Inr have "fst (fetchWithFinnhub e w) = Inr res"
      using fetchWithFinnhub_outcome [of e w ?w0] by simp
    from this r show thesis
      by (rule finnhub)
  next
    case a: (Inl ea)
    then obtain w1 where w1: "fetchWithFinnhub e ?w0 = (Inl ea, w1)"
      by (cases "fetchWithFinnhub e ?w0") simp
    from a have a': "fst (fetchWithFinnhub e w) = Inl ea"
      using fetchWithFinnhub_outcome [of e w ?w0] by simp
    have n1: "note w1 = []"
      using fetchWithFinnhub_Inl_note [OF w1] by simp
    show thesis
    proof (cases "fst (fetchWithFMP e w1)")
      case (Inr res)
      from fetchWithFMP_Inr(1) [OF this] w1 n1
      have r: "dataSource (snd (run e w)) = FMP" "stocks (snd (run e w)) = res"
        "note (snd (run e w)) = []"
        by (simp_all add: run_def run_with_unfold)
      from Inr have b': "fst (fetchWithFMP e w) = Inr res"
        using fetchWithFMP_outcome [of e w w1] by simp
      from a' b' r show thesis
        by (rule fmp)
    next
      case (Inl eb)
      then obtain w2 where w2: "fetchWithFMP e w1 = (Inl eb, w2)"
        by (cases "fetchWithFMP e w1") simp
      from Inl have b': "fst (fetchWithFMP e w) = Inl eb"
        using fetchWithFMP_outcome [of e w w1] by simp
      from w1 w2 have "dataSource (snd (run e w)) = TwelveData"
        "fst (fetchWithTwelveData e w) = Inr (stocks (snd (run e w)))"
        "note (snd (run e w))
             = ''TwelveData demo in use; missing quotes filled with sample prices.''"
        by (simp_all add: run_def run_with_unfold fetchWithTwelveData_eq)
      with a' b' show thesis
        by (rule twelvedata)
    qed
  qed
qed

lemma API_KEY_None: "REACT_APP_FINNHUB_KEY e = None \<Longrightarrow> API_KEY e = []"
  by (simp add: API_KEY_def trim_def)

lemma run_env_fmp_short:
  "dataSource (snd (run env_fmp_short initial)) = FMP \<and>
   stocks (snd (run env_fmp_short initial))
     = [\<lparr>symbol = JString ''MSFT'', price = Fin 400, change = Fin 2\<rparr>]"
proof -
  have a: "fst (fetchWithFinnhub env_fmp_short initial) = Inl (Error ''no-key'')"
    by (simp add: fetchWithFinnhub_no_key API_KEY_None env_fmp_short_def)
  have b: "fst (fetchWithFMP env_fmp_short initial)
     = Inr [\<lparr>symbol = JString ''MSFT'', price = Fin 400, change = Fin 2\<rparr>]"
    by (simp add: fetchWithFMP_def env_fmp_short_def Let_def fmp_quote_def fmp_item_def
      ToNumber_primitive)
  from run_via_fmp [OF a b] show ?thesis .
qed

lemma fetch_env_twelvedata:
  "fst (fetchWithTwelveData env_twelvedata w) =
     Inr [\<lparr>symbol = JString ''AAPL'', price = Fin 100, change = Fin 0\<rparr>,
          \<lparr>symbol = JString ''MSFT'', price = Fin 100, change = Fin 0\<rparr>,
          \<lparr>symbol = JString ''GOOGL'', price = Fin 100, change = Fin 0\<rparr>,
          \<lparr>symbol = JString ''AMZN'', price = Fin 100, change = Fin 0\<rparr>]"
  by (simp add: fetchWithTwelveData_eq env_twelvedata_def SYMBOLS_def twelvedata_request_def
      fmp_request_def opt_prop_def ToNumber_primitive)

lemma all_results_map_Inl_iff:
  "(\<exists>ex. all_results (map f xs) = Inl ex) \<longleftrightarrow> (\<exists>x \<in> set xs. \<exists>ex. f x = Inl ex)"
  by (induction xs) (auto split: sum.splits)

lemma finnhub_quote_Inl_iff:
  "(\<exists>ex. finnhub_quote smb resp = Inl ex) \<longleftrightarrow>
     (case resp of
        Inl ex \<Rightarrow> True
      | Inr data \<Rightarrow>
          data = JNull \<or> data = JUndefined \<or>
          Number_throws (opt_prop data ''c'') \<or> Number_throws (opt_prop data ''pc''))"
proof (cases resp)
  case (Inl ex)
  then show ?thesis by (simp add: finnhub_quote_def)
next
  case (Inr data)
  then show ?thesis
    by (cases data)
      (auto simp: finnhub_quote_def Let_def opt_prop_def ToNumber_def split: option.splits)
qed

lemma fmp_quote_Inl_iff:
  "(\<exists>ex. fmp_quote d = Inl ex) \<longleftrightarrow>
     d = JNull \<or> d = JUndefined \<or>
     Number_throws (opt_prop d ''price'') \<or> Number_throws (opt_prop d ''changesPercentage'')"
  by (cases d) (auto simp: fmp_quote_def opt_prop_def ToNumber_def split: option.splits)

lemma not_a_number: "StringToNumber ''n/a'' = NaN"
  by (simp add: StringToNumber_def trim_def is_ws_def parse_non_decimal_def
      parse_unsigned_decimal_def is_digit_def digit_val_def Let_def)

lemma API_KEY_env_malformed: "API_KEY env_malformed = ''k''"
  by (simp add: API_KEY_def env_malformed_def trim_def is_ws_def)

lemma fetch_env_malformed:
  "fst (fetchWithFinnhub env_malformed w) =
     Inr [\<lparr>symbol = JString ''AAPL'', price = NaN, change = Fin 0\<rparr>,
          \<lparr>symbol = JString ''MSFT'', price = NaN, change = Fin 0\<rparr>,
          \<lparr>symbol = JString ''GOOGL'', price = NaN, change = Fin 0\<rparr>,
          \<lparr>symbol = JString ''AMZN'', price = NaN, change = Fin 0\<rparr>]"
  unfolding fetchWithFinnhub_def API_KEY_env_malformed
  by (simp add: Let_def finnhub_quote_def env_malformed_def SYMBOLS_def finnhub_request_def
      fmp_request_def ToNumber_primitive)

section \<open>C1: the cascade never throws\<close>

text \<open>
  Claim C1. Whatever the three fetch functions do, each returning quotes or throwing,
  \<^verbatim>\<open>run\<close> ends without an exception: nothing reaches its caller, also when all three
  throw. This holds for any three fetch functions and so for the three of the component.
\<close>

theorem run_never_raises:
  "fst (run_with fetchA fetchB fetchC w) = Inr () \<and> fst (run e w) = Inr ()"
  by (simp add: run_def run_with_unfold split: prod.splits sum.splits)

section \<open>C2: the quotes and the symbols\<close>

text \<open>
  Claim C2, as amended. When the quotes do not come from FMP (they come from Finnhub,
  from TwelveData or from \<open>DEMO\<close>), they are one for each symbol of \<open>SYMBOLS\<close>, in the
  order of \<open>SYMBOLS\<close>. When they come from FMP, they are one for each element of the
  array that FMP answered, in the order of that array, each with the \<^verbatim>\<open>symbol\<close> of its
  element: \<^verbatim>\<open>fetchWithFMP\<close> does not compare the array with \<open>SYMBOLS\<close>.
\<close>

theorem quotes_follow_symbols_unless_fmp:
  "(dataSource (snd (run e w)) \<noteq> FMP \<longrightarrow>
      map symbol (stocks (snd (run e w))) = map JString SYMBOLS) \<and>
   (dataSource (snd (run e w)) = FMP \<longrightarrow>
      (\<exists>ds. network e fmp_request = Inr (JArray ds) \<and>
            map symbol (stocks (snd (run e w))) = map (\<lambda>d. opt_prop d ''symbol'') ds))"
proof (cases rule: run_cases [of e w])
  case (finnhub res)
  with fetchWithFinnhub_Inr(2) [of e w res] show ?thesis
    by simp
next
  case (fmp ea res)
  with fetchWithFMP_Inr(2) [of e w res] show ?thesis
    by simp
next
  case (twelvedata ea eb)
  from twelvedata(4) have "Inr (stocks (snd (run e w))) = fst (fetchWithTwelveData e w)"
    by simp
  then have "map symbol (stocks (snd (run e w))) = map JString SYMBOLS"
    by (simp add: fetchWithTwelveData_eq comp_def)
  with twelvedata(3) show ?thesis
    by simp
qed

theorem quotes_follow_symbols_unless_fmp_witness:
  "dataSource (snd (run env_finnhub initial)) \<noteq> FMP \<and>
   map symbol (stocks (snd (run env_finnhub initial)))
     = [JString ''AAPL'', JString ''MSFT'', JString ''GOOGL'', JString ''AMZN''] \<and>
   dataSource (snd (run env_fmp_short initial)) = FMP \<and>
   network env_fmp_short fmp_request = Inr (JArray [fmp_item ''MSFT'' 400 2]) \<and>
   map symbol (stocks (snd (run env_fmp_short initial))) = [JString ''MSFT'']"
proof -
  have "dataSource (snd (run env_finnhub initial)) = Finnhub"
    using run_via_finnhub [OF fetch_env_finnhub [of initial]] by (simp add: run_def)
  then have 1: "dataSource (snd (run env_finnhub initial)) \<noteq> FMP"
    by simp
  with quotes_follow_symbols_unless_fmp [of env_finnhub initial]
  have 2: "map symbol (stocks (snd (run env_finnhub initial)))
     = [JString ''AAPL'', JString ''MSFT'', JString ''GOOGL'', JString ''AMZN'']"
    by (simp add: SYMBOLS_def)
  have 3: "dataSource (snd (run env_fmp_short initial)) = FMP"
    using run_env_fmp_short by simp
  have 4: "network env_fmp_short fmp_request = Inr (JArray [fmp_item ''MSFT'' 400 2])"
    by (simp add: env_fmp_short_def)
  from quotes_follow_symbols_unless_fmp [of env_fmp_short initial] 3 4
  have 5: "map symbol (stocks (snd (run env_fmp_short initial))) = [JString ''MSFT'']"
    by (simp add: opt_prop_def fmp_item_def)
  from 1 2 3 4 5 show ?thesis
    by blast
qed

text \<open>
  The claim as it was stated fails: when FMP answers with a single element, for the
  second symbol, \<^verbatim>\<open>run\<close> shows one quote, where \<open>SYMBOLS\<close> has four symbols.
\<close>

theorem quotes_follow_symbols_counterexample:
  "dataSource (snd (run env_fmp_short initial)) = FMP \<and>
   stocks (snd (run env_fmp_short initial))
     = [\<lparr>symbol = JString ''MSFT'', price = Fin 400, change = Fin 2\<rparr>] \<and>
   length (stocks (snd (run env_fmp_short initial))) \<noteq> length SYMBOLS \<and>
   map symbol (stocks (snd (run env_fmp_short initial))) \<noteq> map JString SYMBOLS"
  using run_env_fmp_short by (simp add: SYMBOLS_def)

section \<open>C3: when all three fetch functions throw\<close>

text \<open>
  Claim C3. If the three fetch functions throw one after the other, \<^verbatim>\<open>run\<close> ends normally
  with the data source \<open>Demo\<close>, the note \<^verbatim>\<open>Using local demo data (APIs unavailable).\<close>
  (which is not empty), and the quotes of \<open>DEMO\<close>, so every price is the price of the
  static data.
\<close>

theorem all_fail_gives_demo:
  assumes "fetchA (w\<lparr>loading := True, error := [], note := []\<rparr>) = (Inl ea, wa)"
    and "fetchB wa = (Inl eb, wb)"
    and "fetchC wb = (Inl ec, wc)"
  shows "fst (run_with fetchA fetchB fetchC w) = Inr () \<and>
         dataSource (snd (run_with fetchA fetchB fetchC w)) = Demo \<and>
         note (snd (run_with fetchA fetchB fetchC w))
           = ''Using local demo data (APIs unavailable).'' \<and>
         note (snd (run_with fetchA fetchB fetchC w)) \<noteq> [] \<and>
         stocks (snd (run_with fetchA fetchB fetchC w)) = DEMO \<and>
         map price (stocks (snd (run_with fetchA fetchB fetchC w))) = map price DEMO"
  using assms by (simp add: run_with_unfold)

theorem all_fail_gives_demo_witness:
  "fetchWithFinnhub env_down (initial\<lparr>loading := True, error := [], note := []\<rparr>)
     = (Inl (Error ''no-key''), initial) \<and>
   fetchWithFMP env_down initial = (Inl AxiosError, initial\<lparr>calls := [fmp_request]\<rparr>) \<and>
   fetch_rejected (initial\<lparr>calls := [fmp_request]\<rparr>)
     = (Inl AxiosError, initial\<lparr>calls := [fmp_request]\<rparr>) \<and>
   fst (run_with (fetchWithFinnhub env_down) (fetchWithFMP env_down) fetch_rejected initial)
     = Inr () \<and>
   dataSource
     (snd (run_with (fetchWithFinnhub env_down) (fetchWithFMP env_down) fetch_rejected initial))
     = Demo \<and>
   note (snd (run_with (fetchWithFinnhub env_down) (fetchWithFMP env_down) fetch_rejected initial))
     = ''Using local demo data (APIs unavailable).'' \<and>
   stocks
     (snd (run_with (fetchWithFinnhub env_down) (fetchWithFMP env_down) fetch_rejected initial))
     = DEMO"
proof -
  let ?w0 = "initial\<lparr>loading := True, error := [], note := []\<rparr>"
  let ?w1 = "initial\<lparr>calls := [fmp_request]\<rparr>"
  have w0: "?w0 = initial"
    by (simp add: initial_def)
  have a: "fetchWithFinnhub env_down ?w0 = (Inl (Error ''no-key''), initial)"
    by (simp add: w0 fetchWithFinnhub_no_key API_KEY_env_down)
  have b: "fetchWithFMP env_down initial = (Inl AxiosError, ?w1)"
    by (simp add: fetchWithFMP_def env_down_def Let_def initial_def)
  have c: "fetch_rejected ?w1 = (Inl AxiosError, ?w1)"
    by (simp add: fetch_rejected_def)
  note t = all_fail_gives_demo [of "fetchWithFinnhub env_down" initial _ _ "fetchWithFMP env_down"
      _ _ fetch_rejected, OF a b c]
  from a b c t show ?thesis
    by blast
qed

section \<open>C4: a successful Finnhub ends the cascade\<close>

text \<open>
  Claim C4. If \<^verbatim>\<open>fetchWithFinnhub\<close> returns quotes, the data source is Finnhub, the quotes
  shown are those it returned, and the only calls of \<^verbatim>\<open>axios.get\<close> made are the four to
  Finnhub: neither FMP nor TwelveData is asked, and the outcome is the same whatever the
  two later fetch functions would do.
\<close>

theorem finnhub_success_stops_cascade:
  assumes "fst (fetchWithFinnhub e w) = Inr res"
  shows "dataSource (snd (run e w)) = Finnhub \<and>
         stocks (snd (run e w)) = res \<and>
         calls (snd (run e w)) = calls w @ map (finnhub_request (API_KEY e)) SYMBOLS \<and>
         run_with (fetchWithFinnhub e) fetchB fetchC w = run e w"
  using assms by (simp add: run_def run_via_finnhub)

theorem finnhub_success_stops_cascade_witness:
  "fst (fetchWithFinnhub env_finnhub initial) =
     Inr [\<lparr>symbol = JString ''AAPL'', price = Fin 110, change = Fin 10\<rparr>,
          \<lparr>symbol = JString ''MSFT'', price = Fin 110, change = Fin 10\<rparr>,
          \<lparr>symbol = JString ''GOOGL'', price = Fin 110, change = Fin 10\<rparr>,
          \<lparr>symbol = JString ''AMZN'', price = Fin 110, change = Fin 10\<rparr>] \<and>
   dataSource (snd (run env_finnhub initial)) = Finnhub \<and>
   calls (snd (run env_finnhub initial)) =
     [finnhub_request ''k'' ''AAPL'', finnhub_request ''k'' ''MSFT'',
      finnhub_request ''k'' ''GOOGL'', finnhub_request ''k'' ''AMZN''] \<and>
   run_with (fetchWithFinnhub env_finnhub) (fetchWithFMP env_down) (fetchWithTwelveData env_down)
     initial = run env_finnhub initial"
proof -
  have h: "fst (fetchWithFinnhub env_finnhub initial) =
     Inr (map (\<lambda>smb. \<lparr>symbol = JString smb, price = Fin 110, change = Fin 10\<rparr>) SYMBOLS)"
    by (rule fetch_env_finnhub)
  from finnhub_success_stops_cascade [OF h] h show ?thesis
    by (simp add: API_KEY_env_finnhub SYMBOLS_def initial_def)
qed

section \<open>C5: without a key, Finnhub fails at once\<close>

text \<open>
  Claim C5. When the key is absent or empty, \<^verbatim>\<open>fetchWithFinnhub\<close> throws and leaves the
  state as it was, the list of calls included: no request is made. And when
  \<^verbatim>\<open>fetchWithFinnhub\<close> throws while \<^verbatim>\<open>fetchWithFMP\<close> returns quotes, the data source is FMP
  and the quotes shown are those of FMP.
\<close>

theorem no_key_fails_then_fmp:
  "(REACT_APP_FINNHUB_KEY e = None \<or> REACT_APP_FINNHUB_KEY e = Some [] \<longrightarrow>
      fetchWithFinnhub e w = (Inl (Error ''no-key''), w) \<and>
      calls (snd (fetchWithFinnhub e w)) = calls w) \<and>
   (fst (fetchWithFinnhub e w) = Inl ex \<and> fst (fetchWithFMP e w) = Inr res \<longrightarrow>
      dataSource (snd (run e w)) = FMP \<and> stocks (snd (run e w)) = res)"
proof -
  have "API_KEY e = []"
    if "REACT_APP_FINNHUB_KEY e = None \<or> REACT_APP_FINNHUB_KEY e = Some []"
    using that by (auto simp: API_KEY_def trim_def)
  then show ?thesis
    by (auto simp: fetchWithFinnhub_no_key dest: run_via_fmp)
qed

theorem no_key_fails_then_fmp_witness:
  "REACT_APP_FINNHUB_KEY env_fmp = None \<and>
   fetchWithFinnhub env_fmp initial = (Inl (Error ''no-key''), initial) \<and>
   fst (fetchWithFMP env_fmp initial) =
     Inr [\<lparr>symbol = JString ''AAPL'', price = Fin 200, change = Fin 1\<rparr>,
          \<lparr>symbol = JString ''MSFT'', price = Fin 400, change = Fin 2\<rparr>,
          \<lparr>symbol = JString ''GOOGL'', price = Fin 150, change = Fin 3\<rparr>,
          \<lparr>symbol = JString ''AMZN'', price = Fin 180, change = Fin 4\<rparr>] \<and>
   dataSource (snd (run env_fmp initial)) = FMP"
proof -
  have k: "REACT_APP_FINNHUB_KEY env_fmp = None"
    by (simp add: env_fmp_def)
  note t = no_key_fails_then_fmp [of env_fmp initial "Error ''no-key''"]
  from t k have a: "fetchWithFinnhub env_fmp initial = (Inl (Error ''no-key''), initial)"
    by blast
  with t fetch_env_fmp [of initial] have "dataSource (snd (run env_fmp initial)) = FMP"
    by simp
  with k a fetch_env_fmp [of initial] show ?thesis
    by simp
qed

section \<open>C6: one symbol fails in TwelveData\<close>

text \<open>
  Claim C6. Take any environment and let the request of \<^verbatim>\<open>fetchWithTwelveData\<close> for one
  symbol \<open>X\<close> be rejected instead. Then \<^verbatim>\<open>fetchWithTwelveData\<close> still returns quotes; the
  quote of \<open>X\<close> has the price that \<open>FALLBACK\<close> and \<open>DEMO\<close> give to \<open>X\<close> and the change 0;
  every other quote is what it was; the change of every quote is 0; the data source is
  TwelveData and the note is set.
\<close>

theorem twelvedata_one_symbol_fails:
  assumes "X \<in> set SYMBOLS"
  shows "\<exists>out out'.
           fst (fetchWithTwelveData e w) = Inr out \<and>
           fst (fetchWithTwelveData
                  (e\<lparr>network := (network e)(twelvedata_request X := Inl ex)\<rparr>) w) = Inr out' \<and>
           out' = map (\<lambda>q. if symbol q = JString X
                             then \<lparr>symbol = JString X, price = fallback_price X, change = Fin 0\<rparr>
                             else q) out \<and>
           list_all (\<lambda>q. change q = Fin 0) out' \<and>
           map_of (map (\<lambda>q. (symbol q, price q)) DEMO) (JString X) = Some (fallback_price X) \<and>
           dataSource (snd (fetchWithTwelveData
                  (e\<lparr>network := (network e)(twelvedata_request X := Inl ex)\<rparr>) w)) = TwelveData \<and>
           note (snd (fetchWithTwelveData
                  (e\<lparr>network := (network e)(twelvedata_request X := Inl ex)\<rparr>) w))
             = ''TwelveData demo in use; missing quotes filled with sample prices.''"
proof -
  have demo: "map_of (map (\<lambda>q. (symbol q, price q)) DEMO) (JString X) = Some (fallback_price X)"
    using assms by (auto simp: SYMBOLS_def DEMO_def fallback_price_def FALLBACK_def)
  show ?thesis
    unfolding fetchWithTwelveData_eq
    using demo by (simp add: twelvedata_request_inj comp_def list_all_iff)
qed

theorem twelvedata_one_symbol_fails_witness:
  "''MSFT'' \<in> set SYMBOLS \<and>
   fst (fetchWithTwelveData env_twelvedata initial) =
     Inr [\<lparr>symbol = JString ''AAPL'', price = Fin 100, change = Fin 0\<rparr>,
          \<lparr>symbol = JString ''MSFT'', price = Fin 100, change = Fin 0\<rparr>,
          \<lparr>symbol = JString ''GOOGL'', price = Fin 100, change = Fin 0\<rparr>,
          \<lparr>symbol = JString ''AMZN'', price = Fin 100, change = Fin 0\<rparr>] \<and>
   fst (fetchWithTwelveData
          (env_twelvedata\<lparr>network :=
             (network env_twelvedata)(twelvedata_request ''MSFT'' := Inl AxiosError)\<rparr>) initial) =
     Inr [\<lparr>symbol = JString ''AAPL'', price = Fin 100, change = Fin 0\<rparr>,
          \<lparr>symbol = JString ''MSFT'', price = fallback_price ''MSFT'', change = Fin 0\<rparr>,
          \<lparr>symbol = JString ''GOOGL'', price = Fin 100, change = Fin 0\<rparr>,
          \<lparr>symbol = JString ''AMZN'', price = Fin 100, change = Fin 0\<rparr>] \<and>
   fallback_price ''MSFT'' = lit 452.12"
proof -
  have x: "''MSFT'' \<in> set SYMBOLS"
    by (simp add: SYMBOLS_def)
  have f: "fallback_price ''MSFT'' = lit 452.12"
    by (simp add: fallback_price_def FALLBACK_def)
  from twelvedata_one_symbol_fails [OF x, of env_twelvedata initial AxiosError]
    fetch_env_twelvedata [of initial]
  have "fst (fetchWithTwelveData
          (env_twelvedata\<lparr>network :=
             (network env_twelvedata)(twelvedata_request ''MSFT'' := Inl AxiosError)\<rparr>) initial) =
     Inr [\<lparr>symbol = JString ''AAPL'', price = Fin 100, change = Fin 0\<rparr>,
          \<lparr>symbol = JString ''MSFT'', price = fallback_price ''MSFT'', change = Fin 0\<rparr>,
          \<lparr>symbol = JString ''GOOGL'', price = Fin 100, change = Fin 0\<rparr>,
          \<lparr>symbol = JString ''AMZN'', price = Fin 100, change = Fin 0\<rparr>]"
    by auto
  with x f fetch_env_twelvedata [of initial] show ?thesis
    by blast
qed

section \<open>C7: the percent change of a Finnhub quote\<close>

text \<open>
  Claim C7. For a response whose fields \<^verbatim>\<open>c\<close> and \<^verbatim>\<open>pc\<close> can be read and converted by
  \<^verbatim>\<open>Number\<close> to the numbers \<open>p\<close> and \<open>pv\<close>, the callback of \<^verbatim>\<open>fetchWithFinnhub\<close> returns a
  quote of price \<open>p\<close> whose change is \<open>(p - pv) / pv * 100\<close>, computed in doubles, when the
  previous close \<open>pv\<close> is a number other than zero, and \<open>0\<close> when the previous close is
  zero (of either sign). For a price of 110 and a previous close of 100 the change is
  exactly 10.
\<close>

theorem finnhub_change_percent:
  assumes "get_prop data ''c'' = Inr c" and "ToNumber c = Inr p"
    and "get_prop data ''pc'' = Inr pc" and "ToNumber pc = Inr pv"
  shows "\<exists>q. finnhub_quote smb (Inr data) = Inr q \<and>
           price q = p \<and>
           (truthy pv \<longrightarrow> change q = js_mul (js_div (js_sub p pv) pv) (Fin 100)) \<and>
           (pv = Fin 0 \<or> pv = NegZero \<longrightarrow> change q = Fin 0) \<and>
           (p = Fin 110 \<and> pv = Fin 100 \<longrightarrow> change q = Fin 10)"
  using assms by (auto simp: finnhub_quote_def Let_def change_110_100)

theorem finnhub_change_percent_witness:
  "get_prop (JObject [(''c'', JNumber (Fin 110)), (''pc'', JNumber (Fin 100))]) ''c''
     = Inr (JNumber (Fin 110)) \<and>
   ToNumber (JNumber (Fin 110)) = Inr (Fin 110) \<and>
   get_prop (JObject [(''c'', JNumber (Fin 110)), (''pc'', JNumber (Fin 100))]) ''pc''
     = Inr (JNumber (Fin 100)) \<and>
   ToNumber (JNumber (Fin 100)) = Inr (Fin 100) \<and>
   finnhub_quote ''AAPL'' (Inr (JObject [(''c'', JNumber (Fin 110)), (''pc'', JNumber (Fin 100))]))
     = Inr \<lparr>symbol = JString ''AAPL'', price = Fin 110, change = Fin 10\<rparr> \<and>
   get_prop (JObject [(''c'', JNumber (Fin 110)), (''pc'', JNumber (Fin 0))]) ''pc''
     = Inr (JNumber (Fin 0)) \<and>
   ToNumber (JNumber (Fin 0)) = Inr (Fin 0) \<and>
   finnhub_quote ''AAPL'' (Inr (JObject [(''c'', JNumber (Fin 110)), (''pc'', JNumber (Fin 0))]))
     = Inr \<lparr>symbol = JString ''AAPL'', price = Fin 110, change = Fin 0\<rparr>"
proof -
  let ?d = "JObject [(''c'', JNumber (Fin 110)), (''pc'', JNumber (Fin 100))]"
  let ?z = "JObject [(''c'', JNumber (Fin 110)), (''pc'', JNumber (Fin 0))]"
  have c: "get_prop ?d ''c'' = Inr (JNumber (Fin 110))"
    and pc: "get_prop ?d ''pc'' = Inr (JNumber (Fin 100))"
    and zc: "get_prop ?z ''c'' = Inr (JNumber (Fin 110))"
    and zpc: "get_prop ?z ''pc'' = Inr (JNumber (Fin 0))"
    by simp_all
  have n: "ToNumber (JNumber (Fin 110)) = Inr (Fin 110)"
    "ToNumber (JNumber (Fin 100)) = Inr (Fin 100)"
    "ToNumber (JNumber (Fin 0)) = Inr (Fin 0)"
    by (simp_all add: ToNumber_primitive)
  from finnhub_change_percent [OF c n(1) pc n(2), of "''AAPL''"]
  obtain q where q: "finnhub_quote ''AAPL'' (Inr ?d) = Inr q"
    and "price q = Fin 110" and "change q = Fin 10"
    by auto
  moreover from q have "symbol q = JString ''AAPL''"
    by (rule finnhub_quote_symbol)
  ultimately have d: "finnhub_quote ''AAPL'' (Inr ?d) =
      Inr \<lparr>symbol = JString ''AAPL'', price = Fin 110, change = Fin 10\<rparr>"
    by (cases q) simp
  from finnhub_change_percent [OF zc n(1) zpc n(3), of "''AAPL''"]
  obtain q' where q': "finnhub_quote ''AAPL'' (Inr ?z) = Inr q'"
    and "price q' = Fin 110" and "change q' = Fin 0"
    by auto
  moreover from q' have "symbol q' = JString ''AAPL''"
    by (rule finnhub_quote_symbol)
  ultimately have z: "finnhub_quote ''AAPL'' (Inr ?z) =
      Inr \<lparr>symbol = JString ''AAPL'', price = Fin 110, change = Fin 0\<rparr>"
    by (cases q') simp
  from c pc zpc n d z show ?thesis
    by simp
qed

section \<open>C8: what makes Finnhub and FMP fail\<close>

text \<open>
  Claim C8, as amended. \<^verbatim>\<open>fetchWithFinnhub\<close> throws exactly when the key is empty, or a
  request is rejected, or the body of a response is \<^verbatim>\<open>null\<close>, or \<^verbatim>\<open>Number\<close> throws on its
  field \<^verbatim>\<open>c\<close> or \<^verbatim>\<open>pc\<close>. \<^verbatim>\<open>fetchWithFMP\<close> throws exactly when its request is rejected, or
  the body is not an array, or an element of the array is \<^verbatim>\<open>null\<close>, or \<^verbatim>\<open>Number\<close> throws
  on the field \<^verbatim>\<open>price\<close> or \<^verbatim>\<open>changesPercentage\<close> of an element. \<^verbatim>\<open>Number\<close> throws on an
  object with a property \<^verbatim>\<open>toString\<close> of its own and on an array that holds one, and on
  nothing else. When \<^verbatim>\<open>fetchWithFinnhub\<close> throws the data source is not Finnhub, and when
  \<^verbatim>\<open>fetchWithFMP\<close> throws it is not FMP. A field that is missing, or that \<^verbatim>\<open>Number\<close>
  converts to \<open>NaN\<close> (a string that is no number), does not make either throw: the quote is
  returned with the price \<open>NaN\<close>.
\<close>

theorem adapters_fail_exactly:
  "((\<exists>ex. fst (fetchWithFinnhub e w) = Inl ex) \<longleftrightarrow>
      API_KEY e = [] \<or>
      (\<exists>smb \<in> set SYMBOLS.
         case network e (finnhub_request (API_KEY e) smb) of
           Inl ex \<Rightarrow> True
         | Inr data \<Rightarrow>
             data = JNull \<or> data = JUndefined \<or>
             Number_throws (opt_prop data ''c'') \<or> Number_throws (opt_prop data ''pc''))) \<and>
   ((\<exists>ex. fst (fetchWithFMP e w) = Inl ex) \<longleftrightarrow>
      (case network e fmp_request of
         Inl ex \<Rightarrow> True
       | Inr data \<Rightarrow>
           (case data of
              JArray ds \<Rightarrow>
                (\<exists>d \<in> set ds.
                   d = JNull \<or> d = JUndefined \<or>
                   Number_throws (opt_prop d ''price'') \<or>
                   Number_throws (opt_prop d ''changesPercentage''))
            | _ \<Rightarrow> True))) \<and>
   ((\<exists>ex. fst (fetchWithFinnhub e w) = Inl ex) \<longrightarrow> dataSource (snd (run e w)) \<noteq> Finnhub) \<and>
   ((\<exists>ex. fst (fetchWithFMP e w) = Inl ex) \<longrightarrow> dataSource (snd (run e w)) \<noteq> FMP) \<and>
   finnhub_quote smb (Inr (JObject []))
     = Inr \<lparr>symbol = JString smb, price = NaN, change = Fin 0\<rparr> \<and>
   finnhub_quote smb (Inr (JObject [(''c'', JString ''n/a''), (''pc'', JNumber (Fin 100))]))
     = Inr \<lparr>symbol = JString smb, price = NaN, change = NaN\<rparr> \<and>
   finnhub_quote smb
     (Inr (JObject [(''c'', JObject [(''toString'', JNumber (Fin 0))]),
                    (''pc'', JNumber (Fin 100))]))
     = Inl TypeError \<and>
   fmp_quote (JObject []) = Inr \<lparr>symbol = JUndefined, price = NaN, change = NaN\<rparr> \<and>
   fmp_quote (JObject [(''symbol'', JString smb), (''price'', JString ''n/a'')])
     = Inr \<lparr>symbol = JString smb, price = NaN, change = NaN\<rparr> \<and>
   fmp_quote (JObject [(''symbol'', JString smb),
                       (''price'', JArray [JObject [(''toString'', JNull)]])])
     = Inl TypeError"
proof -
  have a: "(\<exists>ex. fst (fetchWithFinnhub e w) = Inl ex) \<longleftrightarrow>
      API_KEY e = [] \<or>
      (\<exists>smb \<in> set SYMBOLS.
         case network e (finnhub_request (API_KEY e) smb) of
           Inl ex \<Rightarrow> True
         | Inr data \<Rightarrow>
             data = JNull \<or> data = JUndefined \<or>
             Number_throws (opt_prop data ''c'') \<or> Number_throws (opt_prop data ''pc''))"
  proof (cases "API_KEY e = []")
    case True
    then show ?thesis by (simp add: fetchWithFinnhub_no_key)
  next
    case False
    let ?rs = "map (\<lambda>smb. finnhub_quote smb (network e (finnhub_request (API_KEY e) smb))) SYMBOLS"
    from False have "(\<exists>ex. fst (fetchWithFinnhub e w) = Inl ex) \<longleftrightarrow> (\<exists>ex. all_results ?rs = Inl ex)"
      by (auto simp: fetchWithFinnhub_def Let_def split: sum.splits)
    also have "\<dots> \<longleftrightarrow> (\<exists>smb \<in> set SYMBOLS.
        \<exists>ex. finnhub_quote smb (network e (finnhub_request (API_KEY e) smb)) = Inl ex)"
      by (rule all_results_map_Inl_iff)
    finally show ?thesis
      using False by (simp add: finnhub_quote_Inl_iff)
  qed
  have b: "(\<exists>ex. fst (fetchWithFMP e w) = Inl ex) \<longleftrightarrow>
      (case network e fmp_request of
         Inl ex \<Rightarrow> True
       | Inr data \<Rightarrow>
           (case data of
              JArray ds \<Rightarrow>
                (\<exists>d \<in> set ds.
                   d = JNull \<or> d = JUndefined \<or>
                   Number_throws (opt_prop d ''price'') \<or>
                   Number_throws (opt_prop d ''changesPercentage''))
            | _ \<Rightarrow> True))"
  proof (cases "network e fmp_request")
    case (Inl ex)
    then show ?thesis by (simp add: fetchWithFMP_def Let_def)
  next
    case (Inr data)
    show ?thesis
    proof (cases data)
      case (JArray ds)
      have "(\<exists>ex. all_results (map fmp_quote ds) = Inl ex) \<longleftrightarrow>
          (\<exists>d \<in> set ds.
             d = JNull \<or> d = JUndefined \<or>
             Number_throws (opt_prop d ''price'') \<or>
             Number_throws (opt_prop d ''changesPercentage''))"
        by (simp add: all_results_map_Inl_iff fmp_quote_Inl_iff)
      with Inr JArray show ?thesis
        by (auto simp: fetchWithFMP_def Let_def split: sum.splits)
    qed (use Inr in \<open>simp_all add: fetchWithFMP_def Let_def\<close>)
  qed
  have c: "(\<exists>ex. fst (fetchWithFinnhub e w) = Inl ex) \<longrightarrow> dataSource (snd (run e w)) \<noteq> Finnhub"
    "(\<exists>ex. fst (fetchWithFMP e w) = Inl ex) \<longrightarrow> dataSource (snd (run e w)) \<noteq> FMP"
    by (cases rule: run_cases [of e w]; simp)+
  have d: "finnhub_quote smb (Inr (JObject []))
     = Inr \<lparr>symbol = JString smb, price = NaN, change = Fin 0\<rparr>"
    "finnhub_quote smb (Inr (JObject [(''c'', JString ''n/a''), (''pc'', JNumber (Fin 100))]))
     = Inr \<lparr>symbol = JString smb, price = NaN, change = NaN\<rparr>"
    "finnhub_quote smb
     (Inr (JObject [(''c'', JObject [(''toString'', JNumber (Fin 0))]),
                    (''pc'', JNumber (Fin 100))]))
     = Inl TypeError"
    "fmp_quote (JObject []) = Inr \<lparr>symbol = JUndefined, price = NaN, change = NaN\<rparr>"
    "fmp_quote (JObject [(''symbol'', JString smb), (''price'', JString ''n/a'')])
     = Inr \<lparr>symbol = JString smb, price = NaN, change = NaN\<rparr>"
    "fmp_quote (JObject [(''symbol'', JString smb),
                       (''price'', JArray [JObject [(''toString'', JNull)]])])
     = Inl TypeError"
    by (simp_all add: finnhub_quote_def fmp_quote_def ToNumber_def not_a_number js_sub_def
        js_div_def js_mul_def)
  from a b c d show ?thesis
    by blast
qed

theorem adapters_fail_exactly_witness:
  "API_KEY env_down = [] \<and>
   (\<exists>ex. fst (fetchWithFinnhub env_down initial) = Inl ex) \<and>
   dataSource (snd (run env_down initial)) \<noteq> Finnhub \<and>
   network env_down fmp_request = Inl AxiosError \<and>
   (\<exists>ex. fst (fetchWithFMP env_down initial) = Inl ex) \<and>
   dataSource (snd (run env_down initial)) \<noteq> FMP"
proof -
  note t = adapters_fail_exactly [of env_down initial "''AAPL''"]
  have n: "network env_down fmp_request = Inl AxiosError"
    by (simp add: env_down_def)
  from t API_KEY_env_down have a: "\<exists>ex. fst (fetchWithFinnhub env_down initial) = Inl ex"
    by blast
  with t have s: "dataSource (snd (run env_down initial)) \<noteq> Finnhub"
    by blast
  from t n have b: "\<exists>ex. fst (fetchWithFMP env_down initial) = Inl ex"
    by simp
  with t have s': "dataSource (snd (run env_down initial)) \<noteq> FMP"
    by blast
  from API_KEY_env_down a s n b s' show ?thesis
    by blast
qed

text \<open>
  The claim as it was stated fails: with every field missing from the responses of
  Finnhub, \<^verbatim>\<open>fetchWithFinnhub\<close> returns four quotes of price \<open>NaN\<close> and the data source is
  Finnhub; with the empty array from FMP, \<^verbatim>\<open>fetchWithFMP\<close> returns no quote and does not
  throw.
\<close>

theorem malformed_payload_counterexample:
  "network env_malformed (finnhub_request ''k'' ''AAPL'') = Inr (JObject []) \<and>
   fst (fetchWithFinnhub env_malformed initial) =
     Inr [\<lparr>symbol = JString ''AAPL'', price = NaN, change = Fin 0\<rparr>,
          \<lparr>symbol = JString ''MSFT'', price = NaN, change = Fin 0\<rparr>,
          \<lparr>symbol = JString ''GOOGL'', price = NaN, change = Fin 0\<rparr>,
          \<lparr>symbol = JString ''AMZN'', price = NaN, change = Fin 0\<rparr>] \<and>
   dataSource (snd (run env_malformed initial)) = Finnhub \<and>
   network env_malformed fmp_request = Inr (JArray []) \<and>
   fst (fetchWithFMP env_malformed initial) = Inr []"
proof -
  have "dataSource (snd (run env_malformed initial)) = Finnhub"
    using run_via_finnhub [OF fetch_env_malformed [of initial]] by (simp add: run_def)
  moreover have "fst (fetchWithFMP env_malformed initial) = Inr []"
    by (simp add: fetchWithFMP_def env_malformed_def Let_def)
  moreover have "network env_malformed (finnhub_request ''k'' ''AAPL'') = Inr (JObject [])"
    "network env_malformed fmp_request = Inr (JArray [])"
    by (simp_all add: env_malformed_def finnhub_request_def fmp_request_def)
  ultimately show ?thesis
    using fetch_env_malformed [of initial] by simp
qed

section \<open>C9: the two tables of sample prices\<close>

text \<open>
  Claim C9. \<open>FALLBACK\<close>, from which \<^verbatim>\<open>fetchWithTwelveData\<close> fills a missing quote, and
  \<open>DEMO\<close>, the end of the cascade, give the same price to every symbol of \<open>SYMBOLS\<close>, and
  both cover every symbol, in order. With every request rejected, \<^verbatim>\<open>fetchWithTwelveData\<close>
  returns the symbols and prices of \<open>DEMO\<close>.
\<close>

theorem fallback_tables_agree:
  "map FALLBACK SYMBOLS = map (\<lambda>q. Some (price q)) DEMO \<and>
   map fallback_price SYMBOLS = map price DEMO \<and>
   map symbol DEMO = map JString SYMBOLS \<and>
   distinct SYMBOLS \<and>
   fst (fetchWithTwelveData env_down w) = Inr (map (\<lambda>q. q\<lparr>change := Fin 0\<rparr>) DEMO)"
  by (simp add: fetchWithTwelveData_eq env_down_def fallback_price_def FALLBACK_def DEMO_def
      SYMBOLS_def)

section \<open>C10: TwelveData never throws\<close>

text \<open>
  Claim C10. \<^verbatim>\<open>fetchWithTwelveData\<close> always returns quotes, one for each symbol and each
  with a finite price. The price of a symbol is the price of \<open>FALLBACK\<close> for it when its
  request is rejected, when \<^verbatim>\<open>Number\<close> throws on the field \<^verbatim>\<open>price\<close>, and when the number
  read is not finite; otherwise it is the number read. The prices of \<open>FALLBACK\<close> are the
  four literals of the source, none of them zero. So the innermost \<^verbatim>\<open>try\<close> of \<^verbatim>\<open>run\<close>
  never reaches its \<^verbatim>\<open>catch\<close>: with any handler in place of the last block it does the
  same, and \<^verbatim>\<open>run\<close> never ends with the data source \<open>Demo\<close> or with the note of the last
  block.
\<close>

theorem twelvedata_never_throws:
  "(\<exists>out. fst (fetchWithTwelveData e w) = Inr out \<and>
          map symbol out = map JString SYMBOLS \<and>
          list_all (\<lambda>q. isFinite (price q)) out) \<and>
   fst (fetchWithTwelveData e w) =
     Inr (map (\<lambda>smb.
             \<lparr>symbol = JString smb,
              price = (case network e (twelvedata_request smb) of
                         Inl ex \<Rightarrow> fallback_price smb
                       | Inr data \<Rightarrow>
                           (case ToNumber (opt_prop data ''price'') of
                              Inl ex \<Rightarrow> fallback_price smb
                            | Inr raw \<Rightarrow> if isFinite raw then raw else fallback_price smb)),
              change = Fin 0\<rparr>) SYMBOLS) \<and>
   map fallback_price SYMBOLS =
     [Fin (8038925334856335 / 35184372088832), Fin (3976889577200681 / 8796093022208),
      Fin (1454785824942981 / 8796093022208), Fin (6430647686675825 / 35184372088832)] \<and>
   twelvedata_quote ''AAPL'' (Inl AxiosError)
     = Inr \<lparr>symbol = JString ''AAPL'', price = Fin (8038925334856335 / 35184372088832),
            change = Fin 0\<rparr> \<and>
   twelvedata_quote ''AAPL'' (Inr (JObject []))
     = Inr \<lparr>symbol = JString ''AAPL'', price = Fin (8038925334856335 / 35184372088832),
            change = Fin 0\<rparr> \<and>
   twelvedata_quote ''AAPL'' (Inr (JObject [(''price'', JNumber PosInf)]))
     = Inr \<lparr>symbol = JString ''AAPL'', price = Fin (8038925334856335 / 35184372088832),
            change = Fin 0\<rparr> \<and>
   twelvedata_quote ''AAPL'' (Inr (JObject [(''price'', JObject [(''toString'', JNull)])]))
     = Inr \<lparr>symbol = JString ''AAPL'', price = Fin (8038925334856335 / 35184372088832),
            change = Fin 0\<rparr> \<and>
   twelvedata_quote ''AAPL'' (Inr (JObject [(''price'', JNumber (Fin 100))]))
     = Inr \<lparr>symbol = JString ''AAPL'', price = Fin 100, change = Fin 0\<rparr> \<and>
   try_catch (and_then (fetchWithTwelveData e) setStocks) handler w
     = and_then (fetchWithTwelveData e) setStocks w \<and>
   dataSource (snd (run e w)) \<noteq> Demo \<and>
   note (snd (run e w)) \<noteq> ''Using local demo data (APIs unavailable).''"
proof -
  have eq: "fst (fetchWithTwelveData e w) =
     Inr (map (\<lambda>smb.
             \<lparr>symbol = JString smb,
              price = (case network e (twelvedata_request smb) of
                         Inl ex \<Rightarrow> fallback_price smb
                       | Inr data \<Rightarrow>
                           (case ToNumber (opt_prop data ''price'') of
                              Inl ex \<Rightarrow> fallback_price smb
                            | Inr raw \<Rightarrow> if isFinite raw then raw else fallback_price smb)),
              change = Fin 0\<rparr>) SYMBOLS)"
    by (simp add: fetchWithTwelveData_eq)
  have "list_all (\<lambda>q. isFinite (price q))
     (map (\<lambda>smb.
             \<lparr>symbol = JString smb,
              price = (case network e (twelvedata_request smb) of
                         Inl ex \<Rightarrow> fallback_price smb
                       | Inr data \<Rightarrow>
                           (case ToNumber (opt_prop data ''price'') of
                              Inl ex \<Rightarrow> fallback_price smb
                            | Inr raw \<Rightarrow> if isFinite raw then raw else fallback_price smb)),
              change = Fin 0\<rparr>) SYMBOLS)"
    by (simp add: list_all_iff isFinite_fallback_price split: sum.splits)
  with eq have 1: "\<exists>out. fst (fetchWithTwelveData e w) = Inr out \<and>
          map symbol out = map JString SYMBOLS \<and>
          list_all (\<lambda>q. isFinite (price q)) out"
    by (simp add: comp_def)
  have 2: "try_catch (and_then (fetchWithTwelveData e) setStocks) handler w
     = and_then (fetchWithTwelveData e) setStocks w"
    by (simp add: try_catch_def and_then_def fetchWithTwelveData_eq setStocks_def)
  have 3: "dataSource (snd (run e w)) \<noteq> Demo \<and>
     note (snd (run e w)) \<noteq> ''Using local demo data (APIs unavailable).''"
    by (cases rule: run_cases [of e w]) simp_all
  have f: "fallback_price ''AAPL'' = Fin (8038925334856335 / 35184372088832)"
    "fallback_price ''MSFT'' = Fin (3976889577200681 / 8796093022208)"
    "fallback_price ''GOOGL'' = Fin (1454785824942981 / 8796093022208)"
    "fallback_price ''AMZN'' = Fin (6430647686675825 / 35184372088832)"
    unfolding fallback_price_def FALLBACK_def lit_AAPL lit_MSFT lit_GOOGL lit_AMZN
    by simp_all
  then have 4: "map fallback_price SYMBOLS =
     [Fin (8038925334856335 / 35184372088832), Fin (3976889577200681 / 8796093022208),
      Fin (1454785824942981 / 8796093022208), Fin (6430647686675825 / 35184372088832)]"
    by (simp add: SYMBOLS_def)
  have 5: "twelvedata_quote ''AAPL'' (Inl AxiosError)
     = Inr \<lparr>symbol = JString ''AAPL'', price = Fin (8038925334856335 / 35184372088832),
            change = Fin 0\<rparr>"
    "twelvedata_quote ''AAPL'' (Inr (JObject []))
     = Inr \<lparr>symbol = JString ''AAPL'', price = Fin (8038925334856335 / 35184372088832),
            change = Fin 0\<rparr>"
    "twelvedata_quote ''AAPL'' (Inr (JObject [(''price'', JNumber PosInf)]))
     = Inr \<lparr>symbol = JString ''AAPL'', price = Fin (8038925334856335 / 35184372088832),
            change = Fin 0\<rparr>"
    "twelvedata_quote ''AAPL'' (Inr (JObject [(''price'', JObject [(''toString'', JNull)])]))
     = Inr \<lparr>symbol = JString ''AAPL'', price = Fin (8038925334856335 / 35184372088832),
            change = Fin 0\<rparr>"
    "twelvedata_quote ''AAPL'' (Inr (JObject [(''price'', JNumber (Fin 100))]))
     = Inr \<lparr>symbol = JString ''AAPL'', price = Fin 100, change = Fin 0\<rparr>"
    by (simp_all add: twelvedata_quote_eq f(1) opt_prop_def ToNumber_def)
  from 1 eq 4 5 2 3 show ?thesis
    by blast
qed

end
